theory Spec2Isabelle
  imports Complex_Main "HOL-Library.Multiset"
begin

section \<open>Errors and tensors\<close>

text \<open>
  The exceptions that the modelled functions can raise. A function that may raise returns
  \<open>error + 'a\<close>, with \<open>Inl\<close> for the exception.
\<close>

datatype error = ValueError | RuntimeError | KeyError | TypeError | IndexError

definition ebind :: "error + 'a \<Rightarrow> ('a \<Rightarrow> error + 'b) \<Rightarrow> error + 'b" where
  "ebind m f = (case m of Inl e \<Rightarrow> Inl e | Inr x \<Rightarrow> f x)"

text \<open>
  A 4-D tensor as the network sees it: the four sizes (batch, channel, height, width) and
  the entry at each index. Only entries at indices below the sizes belong to the tensor.
\<close>

record 'a tensor4 =
  dimN :: nat
  dimC :: nat
  dimH :: nat
  dimW :: nat
  elem :: "nat \<Rightarrow> nat \<Rightarrow> nat \<Rightarrow> nat \<Rightarrow> 'a"

definition shape :: "'a tensor4 \<Rightarrow> nat \<times> nat \<times> nat \<times> nat" where
  "shape t = (dimN t, dimC t, dimH t, dimW t)"

text \<open>
  Python's adjustment of one bound of a slice \<open>a:b\<close> (step 1) over an axis of size \<open>n\<close>:
  a negative bound counts from the end, and the bound is then clamped into \<open>0..n\<close>.
\<close>

definition slice_index :: "nat \<Rightarrow> int \<Rightarrow> nat" where
  "slice_index n i = (if i < 0 then nat (max 0 (i + int n)) else min n (nat i))"

text \<open>\<open>t[:, :, a:b, :]\<close> and \<open>t[:, :, :, a:b]\<close>; an empty range gives size 0.\<close>

definition slice_rows :: "'a tensor4 \<Rightarrow> int \<Rightarrow> int \<Rightarrow> 'a tensor4" where
  "slice_rows t a b =
     (let s = slice_index (dimH t) a; e = slice_index (dimH t) b
      in t\<lparr>dimH := e - s, elem := \<lambda>n c i j. elem t n c (s + i) j\<rparr>)"

definition slice_cols :: "'a tensor4 \<Rightarrow> int \<Rightarrow> int \<Rightarrow> 'a tensor4" where
  "slice_cols t a b =
     (let s = slice_index (dimW t) a; e = slice_index (dimW t) b
      in t\<lparr>dimW := e - s, elem := \<lambda>n c i j. elem t n c i (s + j)\<rparr>)"

section \<open>UNet.crop\<close>

text \<open>
  \<^verbatim>\<open>
  def crop(self, encoder_layer, decoder_layer):
      diffY = encoder_layer.size()[2] - decoder_layer.size()[2]
      diffX = encoder_layer.size()[3] - decoder_layer.size()[3]
      encoder_layer = encoder_layer[:, :, diffY // 2: encoder_layer.size()[2] - diffY // 2,
                                    diffX // 2: encoder_layer.size()[3] - diffX // 2]
      if diffX % 2 == 1:
          encoder_layer = encoder_layer[:, :, :, 1:encoder_layer.size()[3]]
      if diffY % 2 == 1:
          encoder_layer = encoder_layer[:, :, 1:encoder_layer.size()[2], :]
      return encoder_layer
  \<close>
  Python's \<open>//\<close> and \<open>%\<close> on integers round towards minus infinity, as \<open>div\<close> and
  \<open>mod\<close> on \<open>int\<close> do.
\<close>

definition crop :: "'a tensor4 \<Rightarrow> 'a tensor4 \<Rightarrow> 'a tensor4" where
  "crop encoder_layer decoder_layer =
     (let diffY = int (dimH encoder_layer) - int (dimH decoder_layer);
          diffX = int (dimW encoder_layer) - int (dimW decoder_layer);
          e1 = slice_cols
                 (slice_rows encoder_layer (diffY div 2) (int (dimH encoder_layer) - diffY div 2))
                 (diffX div 2) (int (dimW encoder_layer) - diffX div 2);
          e2 = (if diffX mod 2 = 1 then slice_cols e1 1 (int (dimW e1)) else e1);
          e3 = (if diffY mod 2 = 1 then slice_rows e2 1 (int (dimH e2)) else e2)
      in e3)"

text \<open>
  The claim of symmetric cropping, in the spec's words: the cropped tensor is the encoder
  tensor with the same number \<open>ky\<close> of rows removed at the top as at the bottom, and the
  same number \<open>kx\<close> of columns removed at the left as at the right.
\<close>

definition symmetric_crop_of :: "'a tensor4 \<Rightarrow> 'a tensor4 \<Rightarrow> bool" where
  "symmetric_crop_of r e \<longleftrightarrow>
     (\<exists>ky \<in> {0..dimH e}. \<exists>kx \<in> {0..dimW e}.
        dimH e = ky + dimH r + ky \<and> dimW e = kx + dimW r + kx \<and>
        (\<forall>n < dimN r. \<forall>c < dimC r. \<forall>i < dimH r. \<forall>j < dimW r.
           elem r n c i j = elem e n c (ky + i) (kx + j)))"

text \<open>Example tensors: a 1x1x3x3 encoder map with distinct entries, a 1x1x2x2 decoder map.\<close>

definition enc33 :: "int tensor4" where
  "enc33 = \<lparr>dimN = 1, dimC = 1, dimH = 3, dimW = 3,
            elem = \<lambda>n c i j. 3 * int i + int j\<rparr>"

definition dec22 :: "int tensor4" where
  "dec22 = \<lparr>dimN = 1, dimC = 1, dimH = 2, dimW = 2, elem = \<lambda>n c i j. 0\<rparr>"

text \<open>One axis of crop, on sizes: the size left when size \<open>n\<close> is cropped towards \<open>m\<close>.\<close>

definition axis_size :: "nat \<Rightarrow> nat \<Rightarrow> nat" where
  "axis_size n m =
     (let diff = int n - int m;
          n1 = slice_index n (int n - diff div 2) - slice_index n (diff div 2)
      in if diff mod 2 = 1 then slice_index n1 (int n1) - slice_index n1 1 else n1)"

definition axis_start :: "nat \<Rightarrow> nat \<Rightarrow> nat" where
  "axis_start n m =
     (let diff = int n - int m;
          n1 = slice_index n (int n - diff div 2) - slice_index n (diff div 2)
      in if diff mod 2 = 1 then slice_index n (diff div 2) + slice_index n1 1
         else slice_index n (diff div 2))"

section \<open>The layers of the network\<close>

text \<open>
  The layers come from the tensor library, not from this repository; they are modelled by
  the library's documented rules, with entries in \<open>real\<close> (rounding is not modelled). The
  learned weights are parameters of the model: every statement below holds for all weights.
\<close>

type_synonym kernel = "nat \<Rightarrow> nat \<Rightarrow> nat \<Rightarrow> nat \<Rightarrow> real"

text \<open>
  \<open>nn.Conv2d(in_channels, out_channels, kernel_size, padding)\<close>, stride 1, zero padding.
  The library rejects a convolution without output channels (the weight must have at least
  one output channel), an input whose channel count differs from \<open>in_channels\<close>, and one
  whose padded height or width is smaller than the kernel; otherwise the output height is
  \<open>H + 2 * padding - kernel_size + 1\<close>, and likewise the width. For an input without
  channels the library returns an output without channels.
\<close>

record conv2d =
  in_channels :: nat
  out_channels :: nat
  kernel_size :: nat
  padding :: nat
  weight :: kernel
  bias :: "nat \<Rightarrow> real"

definition padded :: "nat \<Rightarrow> real tensor4 \<Rightarrow> nat \<Rightarrow> nat \<Rightarrow> nat \<Rightarrow> nat \<Rightarrow> real" where
  "padded p x n c i j =
     (if p \<le> i \<and> i < dimH x + p \<and> p \<le> j \<and> j < dimW x + p
      then elem x n c (i - p) (j - p) else 0)"

definition conv2d_out :: "conv2d \<Rightarrow> real tensor4 \<Rightarrow> real tensor4" where
  "conv2d_out l x =
     \<lparr>dimN = dimN x, dimC = (if in_channels l = 0 then 0 else out_channels l),
      dimH = dimH x + 2 * padding l + 1 - kernel_size l,
      dimW = dimW x + 2 * padding l + 1 - kernel_size l,
      elem = \<lambda>n co i j. bias l co +
        (\<Sum>ci \<leftarrow> [0..<in_channels l]. \<Sum>a \<leftarrow> [0..<kernel_size l]. \<Sum>b \<leftarrow> [0..<kernel_size l].
           weight l co ci a b * padded (padding l) x n ci (i + a) (j + b))\<rparr>"

definition conv2d_apply :: "conv2d \<Rightarrow> real tensor4 \<Rightarrow> error + real tensor4" where
  "conv2d_apply l x =
     (if out_channels l = 0 then Inl RuntimeError
      else if dimC x \<noteq> in_channels l then Inl RuntimeError
      else if dimH x + 2 * padding l < kernel_size l \<or> dimW x + 2 * padding l < kernel_size l
      then Inl RuntimeError
      else Inr (conv2d_out l x))"

text \<open>
  \<open>nn.MaxPool2d(kernel_size, stride)\<close> without padding: the output height is
  \<open>(H - kernel_size) // stride + 1\<close>, and the library rejects an input for which this is
  not positive. The pools of this network have a positive stride.
\<close>

record maxpool2d =
  pool_kernel :: nat
  pool_stride :: nat

fun max_list :: "real list \<Rightarrow> real" where
  "max_list [] = 0"
| "max_list (v # vs) = fold max vs v"

definition maxpool2d_out :: "maxpool2d \<Rightarrow> real tensor4 \<Rightarrow> real tensor4" where
  "maxpool2d_out l x =
     \<lparr>dimN = dimN x, dimC = dimC x,
      dimH = (dimH x - pool_kernel l) div pool_stride l + 1,
      dimW = (dimW x - pool_kernel l) div pool_stride l + 1,
      elem = \<lambda>n c i j. max_list
        (concat (map (\<lambda>a. map (\<lambda>b. elem x n c (i * pool_stride l + a) (j * pool_stride l + b))
                              [0..<pool_kernel l]) [0..<pool_kernel l]))\<rparr>"

definition maxpool2d_apply :: "maxpool2d \<Rightarrow> real tensor4 \<Rightarrow> error + real tensor4" where
  "maxpool2d_apply l x =
     (if dimH x < pool_kernel l \<or> dimW x < pool_kernel l then Inl RuntimeError
      else Inr (maxpool2d_out l x))"

text \<open>
  \<open>nn.ConvTranspose2d(in_channels, out_channels, kernel_size, stride)\<close> without padding:
  the output height is \<open>(H - 1) * stride + kernel_size\<close>. An input with another channel
  count, or without rows or columns, is rejected; in this network the input comes from a
  pooling layer, so its height and width are at least 1.
\<close>

record conv_transpose2d =
  ct_in_channels :: nat
  ct_out_channels :: nat
  ct_kernel_size :: nat
  ct_stride :: nat
  ct_weight :: kernel
  ct_bias :: "nat \<Rightarrow> real"

definition conv_transpose2d_out :: "conv_transpose2d \<Rightarrow> real tensor4 \<Rightarrow> real tensor4" where
  "conv_transpose2d_out l x =
     \<lparr>dimN = dimN x, dimC = ct_out_channels l,
      dimH = (dimH x - 1) * ct_stride l + ct_kernel_size l,
      dimW = (dimW x - 1) * ct_stride l + ct_kernel_size l,
      elem = \<lambda>n co y z. ct_bias l co +
        (\<Sum>ci \<leftarrow> [0..<ct_in_channels l]. \<Sum>i \<leftarrow> [0..<dimH x]. \<Sum>j \<leftarrow> [0..<dimW x].
           (if i * ct_stride l \<le> y \<and> y < i * ct_stride l + ct_kernel_size l \<and>
               j * ct_stride l \<le> z \<and> z < j * ct_stride l + ct_kernel_size l
            then elem x n ci i j * ct_weight l ci co (y - i * ct_stride l) (z - j * ct_stride l)
            else 0))\<rparr>"

definition conv_transpose2d_apply :: "conv_transpose2d \<Rightarrow> real tensor4 \<Rightarrow> error + real tensor4" where
  "conv_transpose2d_apply l x =
     (if dimC x \<noteq> ct_in_channels l \<or> dimH x = 0 \<or> dimW x = 0 then Inl RuntimeError
      else Inr (conv_transpose2d_out l x))"

text \<open>\<open>nn.ReLU\<close>, entry by entry.\<close>

definition activation :: "real tensor4 \<Rightarrow> real tensor4" where
  "activation x = x\<lparr>elem := \<lambda>n c i j. max 0 (elem x n c i j)\<rparr>"

text \<open>
  \<open>torch.cat([a, b], dim=1)\<close>: the channels of \<open>a\<close> followed by those of \<open>b\<close>; the other
  three sizes must agree.
\<close>

definition cat1 :: "real tensor4 \<Rightarrow> real tensor4 \<Rightarrow> error + real tensor4" where
  "cat1 a b =
     (if dimN a \<noteq> dimN b \<or> dimH a \<noteq> dimH b \<or> dimW a \<noteq> dimW b then Inl RuntimeError
      else Inr \<lparr>dimN = dimN a, dimC = dimC a + dimC b, dimH = dimH a, dimW = dimW a,
                elem = \<lambda>n c i j. if c < dimC a then elem a n c i j
                                   else elem b n (c - dimC a) i j\<rparr>)"

text \<open>
  \<open>F.pad(out, (left, 0, 0, 0), mode='replicate')\<close>: \<open>left\<close> copies of the first column are
  put in front of the last axis.
\<close>

definition pad_left_replicate :: "nat \<Rightarrow> real tensor4 \<Rightarrow> real tensor4" where
  "pad_left_replicate left x =
     x\<lparr>dimW := dimW x + left, elem := \<lambda>n c i j. elem x n c i (j - left)\<rparr>"

section \<open>UNet\<close>

text \<open>
  \<^verbatim>\<open>
  def __init__(self, channels_in=1, channels_out=1):
      self.conv1 = nn.Conv2d(channels_in, 64, kernel_size=3, padding=1)
      self.pool1 = nn.MaxPool2d(kernel_size=2, stride=2)
      self.conv2 = nn.Conv2d(64, 128, kernel_size=3, padding=1)
      ...
      self.upconv1 = nn.ConvTranspose2d(512, 256, kernel_size=2, stride=2)
      self.conv5 = nn.Conv2d(512, 256, kernel_size=3, padding=1)
      ...
      self.outconv = nn.Conv2d(64, channels_out, kernel_size=1)
  \<close>
  Only the layers that \<open>forward\<close> uses are kept (\<open>pool4\<close> and \<open>skip1\<close> to \<open>skip3\<close> are
  built and never applied). The initial weights are drawn at random by the library; here
  they are the parameters \<open>w\<close> and \<open>b\<close>, indexed by the layer.
\<close>

record unet =
  conv1 :: conv2d
  pool1 :: maxpool2d
  conv2 :: conv2d
  pool2 :: maxpool2d
  conv3 :: conv2d
  pool3 :: maxpool2d
  conv4 :: conv2d
  upconv1 :: conv_transpose2d
  conv5 :: conv2d
  upconv2 :: conv_transpose2d
  conv6 :: conv2d
  upconv3 :: conv_transpose2d
  conv7 :: conv2d
  outconv :: conv2d

definition Conv2d :: "nat \<Rightarrow> nat \<Rightarrow> nat \<Rightarrow> nat \<Rightarrow> kernel \<Rightarrow> (nat \<Rightarrow> real) \<Rightarrow> conv2d" where
  "Conv2d cin cout k p w b =
     \<lparr>in_channels = cin, out_channels = cout, kernel_size = k, padding = p,
      weight = w, bias = b\<rparr>"

definition ConvTranspose2d ::
  "nat \<Rightarrow> nat \<Rightarrow> nat \<Rightarrow> nat \<Rightarrow> kernel \<Rightarrow> (nat \<Rightarrow> real) \<Rightarrow> conv_transpose2d" where
  "ConvTranspose2d cin cout k s w b =
     \<lparr>ct_in_channels = cin, ct_out_channels = cout, ct_kernel_size = k, ct_stride = s,
      ct_weight = w, ct_bias = b\<rparr>"

definition MaxPool2d :: "nat \<Rightarrow> nat \<Rightarrow> maxpool2d" where
  "MaxPool2d k s = \<lparr>pool_kernel = k, pool_stride = s\<rparr>"

definition UNet_init :: "nat \<Rightarrow> nat \<Rightarrow> (nat \<Rightarrow> kernel) \<Rightarrow> (nat \<Rightarrow> nat \<Rightarrow> real) \<Rightarrow> unet" where
  "UNet_init channels_in channels_out w b =
     \<lparr>conv1 = Conv2d channels_in 64 3 1 (w 1) (b 1),
      pool1 = MaxPool2d 2 2,
      conv2 = Conv2d 64 128 3 1 (w 2) (b 2),
      pool2 = MaxPool2d 2 2,
      conv3 = Conv2d 128 256 3 1 (w 3) (b 3),
      pool3 = MaxPool2d 2 2,
      conv4 = Conv2d 256 512 3 1 (w 4) (b 4),
      upconv1 = ConvTranspose2d 512 256 2 2 (w 5) (b 5),
      conv5 = Conv2d 512 256 3 1 (w 6) (b 6),
      upconv2 = ConvTranspose2d 256 128 2 2 (w 7) (b 7),
      conv6 = Conv2d 256 128 3 1 (w 8) (b 8),
      upconv3 = ConvTranspose2d 128 64 2 2 (w 9) (b 9),
      conv7 = Conv2d 128 64 3 1 (w 10) (b 10),
      outconv = Conv2d 64 channels_out 1 0 (w 11) (b 11)\<rparr>"

text \<open>
  \<^verbatim>\<open>
  def forward(self, x):
      x1 = self.activation(self.conv1(x))
      x2 = self.activation(self.pool1(self.conv2(x1)))
      x3 = self.activation(self.pool2(self.conv3(x2)))
      x4 = self.activation(self.pool3(self.conv4(x3)))
      cropped = 0
      y1 = self.activation(self.upconv1(x4))
      if y1.shape != x3.shape:
          x3 = self.crop(x3, y1)
          cropped += 1
      y1 = self.activation(self.conv5(torch.cat([x3, y1], dim=1)))
      y2 = self.activation(self.upconv2(y1))
      if y2.shape != x2.shape:
          x2 = self.crop(x2, y2)
          cropped += 1
      y2 = self.activation(self.conv6(torch.cat([x2, y2], dim=1)))
      y3 = self.activation(self.upconv3(y2))
      if y3.shape != x1.shape:
          x1 = self.crop(x1, y3)
          cropped += 1
      y3 = self.activation(self.conv7(torch.cat([x1, y3], dim=1)))
      out = self.outconv(y3)
      out = F.pad(out, (cropped, 0, 0, 0), mode='replicate')
      return out
  \<close>
  \<open>skip_connection\<close> is the crop-and-count step before each concatenation. \<open>forward_run\<close>
  returns the local variable \<open>cropped\<close> next to the output, so that statements can speak
  about it; \<open>forward\<close> is the function of the source.
\<close>

definition conv_pool ::
  "conv2d \<Rightarrow> maxpool2d \<Rightarrow> real tensor4 \<Rightarrow> error + real tensor4" where
  "conv_pool c p x =
     ebind (conv2d_apply c x) (\<lambda>v. ebind (maxpool2d_apply p v) (\<lambda>u. Inr (activation u)))"

definition skip_connection ::
  "real tensor4 \<Rightarrow> real tensor4 \<Rightarrow> nat \<Rightarrow> real tensor4 \<times> nat" where
  "skip_connection xe y cropped =
     (if shape y \<noteq> shape xe then (crop xe y, cropped + 1) else (xe, cropped))"

definition up_block ::
  "conv_transpose2d \<Rightarrow> conv2d \<Rightarrow> real tensor4 \<Rightarrow> real tensor4 \<Rightarrow> nat
     \<Rightarrow> error + (real tensor4 \<times> nat)" where
  "up_block up c xd xe cropped =
     ebind (conv_transpose2d_apply up xd) (\<lambda>u.
       let y = activation u; (xe', cropped') = skip_connection xe y cropped
       in ebind (cat1 xe' y) (\<lambda>z.
            ebind (conv2d_apply c z) (\<lambda>v. Inr (activation v, cropped'))))"

definition forward_run :: "unet \<Rightarrow> real tensor4 \<Rightarrow> error + (real tensor4 \<times> nat)" where
  "forward_run m x =
     ebind (conv2d_apply (conv1 m) x) (\<lambda>v1. let x1 = activation v1 in
     ebind (conv_pool (conv2 m) (pool1 m) x1) (\<lambda>x2.
     ebind (conv_pool (conv3 m) (pool2 m) x2) (\<lambda>x3.
     ebind (conv_pool (conv4 m) (pool3 m) x3) (\<lambda>x4.
     ebind (up_block (upconv1 m) (conv5 m) x4 x3 0) (\<lambda>(y1, cropped1).
     ebind (up_block (upconv2 m) (conv6 m) y1 x2 cropped1) (\<lambda>(y2, cropped2).
     ebind (up_block (upconv3 m) (conv7 m) y2 x1 cropped2) (\<lambda>(y3, cropped3).
     ebind (conv2d_apply (outconv m) y3) (\<lambda>out.
       Inr (pad_left_replicate cropped3 out, cropped3)))))))))"

definition forward :: "unet \<Rightarrow> real tensor4 \<Rightarrow> error + real tensor4" where
  "forward m x = ebind (forward_run m x) (\<lambda>(out, cropped). Inr out)"

text \<open>Example inputs: an 8x8 map and an empty map (height and width 0), one channel each.\<close>

definition input88 :: "real tensor4" where
  "input88 = \<lparr>dimN = 1, dimC = 1, dimH = 8, dimW = 8, elem = \<lambda>n c i j. 0\<rparr>"

definition input00 :: "real tensor4" where
  "input00 = \<lparr>dimN = 1, dimC = 1, dimH = 0, dimW = 0, elem = \<lambda>n c i j. 0\<rparr>"

section \<open>Datasets and coarsening\<close>

text \<open>
  The data arrays of the project have the dimensions (time, member, height, ncells), in
  this order after the transposition in \<open>load_data\<close>. A cell holds a number or NaN; NaN is
  \<open>None\<close>, a number is a \<open>real\<close> (rounding and infinities are not modelled).
\<close>

record dataset =
  size_time :: nat
  size_member :: nat
  size_height :: nat
  size_ncells :: nat
  cell :: "nat \<Rightarrow> nat \<Rightarrow> nat \<Rightarrow> nat \<Rightarrow> real option"

text \<open>
  \<open>data.coarsen(height=factor, ncells=factor)\<close> of the array library, with the default
  \<open>boundary="exact"\<close>: the window must be positive and must divide the size of each
  coarsened dimension, otherwise the library raises ValueError.
\<close>

definition coarsen_window :: "dataset \<Rightarrow> int \<Rightarrow> error + nat" where
  "coarsen_window data factor =
     (if factor \<le> 0 then Inl ValueError
      else if int (size_height data) mod factor \<noteq> 0 \<or> int (size_ncells data) mod factor \<noteq> 0
      then Inl ValueError
      else Inr (nat factor))"

text \<open>The cells of the block of output cell \<open>(i, j)\<close>, row by row.\<close>

definition block :: "dataset \<Rightarrow> nat \<Rightarrow> nat \<Rightarrow> nat \<Rightarrow> nat \<Rightarrow> nat \<Rightarrow> real option list" where
  "block data f t m i j =
     concat (map (\<lambda>a. map (\<lambda>b. cell data t m (i * f + a) (j * f + b)) [0..<f]) [0..<f])"

definition coarsen_reduce ::
  "(real option list \<Rightarrow> real option) \<Rightarrow> dataset \<Rightarrow> nat \<Rightarrow> dataset" where
  "coarsen_reduce reduce data f =
     \<lparr>size_time = size_time data, size_member = size_member data,
      size_height = size_height data div f, size_ncells = size_ncells data div f,
      cell = \<lambda>t m i j. reduce (block data f t m i j)\<rparr>"

text \<open>
  The two reductions. The method \<open>.mean()\<close> of a coarsened array skips NaN for
  floating-point data (the library's default \<open>skipna\<close>): it is the mean of the cells that
  are not NaN, and NaN when there is none. \<open>np.mean\<close> is the plain arithmetic mean: NaN as
  soon as one cell is NaN.
\<close>

definition nanmean :: "real option list \<Rightarrow> real option" where
  "nanmean xs =
     (let ys = List.map_filter (\<lambda>x. x) xs
      in if ys = [] then None else Some (sum_list ys / real (length ys)))"

definition np_mean :: "real option list \<Rightarrow> real option" where
  "np_mean xs =
     (let ys = List.map_filter (\<lambda>x. x) xs
      in if length ys \<noteq> length xs \<or> xs = [] then None
         else Some (sum_list ys / real (length xs)))"

text \<open>
  \<^verbatim>\<open>
  # train_cnn.py
  def downscale_data(data, factor):
      with dask.config.set(**{'array.slicing.split_large_chunks': False}):
          data_coarse = data.coarsen(height=factor, ncells=factor).mean()
          return data_coarse

  # utils.py
  def downscale_data(data: xr.Dataset, factor: int) -> xr.Dataset:
      with dask.config.set(Dict[str, bool](**{"array.slicing.split_large_chunks": False})):
          data_coarse = data.coarsen(height=factor, ncells=factor).reduce(np.mean)
          return data_coarse
  \<close>
  \<open>downscale_data_cnn\<close> is the version of train_cnn.py; \<open>downscale_data\<close> is the version
  of utils.py, the one that \<open>load_config_and_data\<close> calls.

  The version of utils.py builds the argument of \<open>dask.config.set\<close> by calling
  \<open>Dict[str, bool]\<close>. A subscripted \<open>typing.Dict\<close> cannot be instantiated: the call
  raises TypeError, whatever its arguments, and it is evaluated before the body of the
  \<open>with\<close> statement. The version of train_cnn.py passes the keywords directly.
\<close>

definition Dict_str_bool :: "error + unit" where
  "Dict_str_bool = Inl TypeError"

definition downscale_data_cnn :: "dataset \<Rightarrow> int \<Rightarrow> error + dataset" where
  "downscale_data_cnn data factor =
     ebind (coarsen_window data factor) (\<lambda>f. Inr (coarsen_reduce nanmean data f))"

definition downscale_data :: "dataset \<Rightarrow> int \<Rightarrow> error + dataset" where
  "downscale_data data factor =
     ebind Dict_str_bool (\<lambda>settings.
     ebind (coarsen_window data factor) (\<lambda>f. Inr (coarsen_reduce np_mean data f)))"

text \<open>
  The arithmetic mean of a block, in the words of the claims: the sum of the cells divided
  by their number, which is NaN when a cell is NaN.
\<close>

definition arithmetic_mean :: "real option list \<Rightarrow> real option" where
  "arithmetic_mean xs =
     (if xs = [] \<or> None \<in> set xs then None
      else Some ((\<Sum>x \<leftarrow> xs. the x) / real (length xs)))"

text \<open>
  Example datasets of one time, one member and a 2x2 grid: the cells 1, 2, 3, 5, and the
  same with NaN in place of 2.
\<close>

definition grid22 :: dataset where
  "grid22 = \<lparr>size_time = 1, size_member = 1, size_height = 2, size_ncells = 2,
             cell = \<lambda>t m i j. Some (if i = 0 then (if j = 0 then 1 else 2)
                                       else (if j = 0 then 3 else 5))\<rparr>"

definition grid22_nan :: dataset where
  "grid22_nan = \<lparr>size_time = 1, size_member = 1, size_height = 2, size_ncells = 2,
                 cell = \<lambda>t m i j. if i = 0 then (if j = 0 then Some 1 else None)
                                     else (if j = 0 then Some 3 else Some 5)\<rparr>"

section \<open>Configuration and loading\<close>











section \<open>MyDataset\<close>

text \<open>
  \<^verbatim>\<open>
  class MyDataset(Dataset):
      def __init__(self, data, split):
          self.data = data
          self.split = split
          num_members = self.data.sizes["member"]
          member_indices = np.arange(num_members)
          np.random.shuffle(member_indices)
          self.train_indices = member_indices[:self.split]
          self.test_indices = member_indices[self.split:]

      def __getitem__(self, idx):            # train_cnn.py
          x = self.data.isel(member=self.train_indices, time=idx).values
          y = self.data.isel(member=self.test_indices, time=idx).values
          if x.ndim == 2: ...
          return torch.from_numpy(x), torch.from_numpy(y)
  \<close>
  The random shuffle is the parameter \<open>shuffle\<close>: what it returns for the list it is given.
  The slices follow Python (\<open>slice_index\<close>). With a 4-D array the selection is 3-D
  (member, height, ncells), so the branch on \<open>x.ndim == 2\<close> is not taken; the result is
  the list of the selected members' fields.
\<close>

record MyDataset =
  data :: dataset
  split :: int
  train_indices :: "nat list"
  test_indices :: "nat list"

definition MyDataset_init :: "(nat list \<Rightarrow> nat list) \<Rightarrow> dataset \<Rightarrow> int \<Rightarrow> MyDataset" where
  "MyDataset_init shuffle data0 split0 =
     (let num_members = size_member data0;
          member_indices = shuffle [0..<num_members]
      in \<lparr>data = data0, split = split0,
          train_indices = take (slice_index (length member_indices) split0) member_indices,
          test_indices = drop (slice_index (length member_indices) split0) member_indices\<rparr>)"

type_synonym field = "nat \<Rightarrow> nat \<Rightarrow> real option"

definition isel_members :: "dataset \<Rightarrow> nat list \<Rightarrow> int \<Rightarrow> error + field list" where
  "isel_members d members idx =
     (let n = int (size_time d); t = (if idx < 0 then idx + n else idx)
      in if t < 0 \<or> n \<le> t \<or> (\<exists>m \<in> set members. size_member d \<le> m) then Inl IndexError
         else Inr (map (\<lambda>m. cell d (nat t) m) members))"

definition MyDataset_getitem :: "MyDataset \<Rightarrow> int \<Rightarrow> error + (field list \<times> field list)" where
  "MyDataset_getitem self idx =
     ebind (isel_members (data self) (train_indices self) idx) (\<lambda>x.
     ebind (isel_members (data self) (test_indices self) idx) (\<lambda>y. Inr (x, y)))"

text \<open>An example array with four members, and the shuffle that reverses the list.\<close>

definition members4 :: dataset where
  "members4 = \<lparr>size_time = 1, size_member = 4, size_height = 1, size_ncells = 1,
               cell = \<lambda>t m i j. Some (real m)\<rparr>"

section \<open>Loss functions\<close>

text \<open>
  Tensor operations of the library on 4-D tensors with entries in \<open>real\<close>. A result that is
  NaN or infinite in floating point (a mean over no entries, a variance over fewer than two
  values, a division by zero) is \<open>None\<close>. Two tensors combine entry by entry after
  broadcasting: along each axis the sizes agree or one of them is 1.
\<close>

definition broadcastable :: "real tensor4 \<Rightarrow> real tensor4 \<Rightarrow> bool" where
  "broadcastable a b \<longleftrightarrow>
     (dimN a = dimN b \<or> dimN a = 1 \<or> dimN b = 1) \<and>
     (dimC a = dimC b \<or> dimC a = 1 \<or> dimC b = 1) \<and>
     (dimH a = dimH b \<or> dimH a = 1 \<or> dimH b = 1) \<and>
     (dimW a = dimW b \<or> dimW a = 1 \<or> dimW b = 1)"

definition bdim :: "nat \<Rightarrow> nat \<Rightarrow> nat" where
  "bdim m n = (if m = 1 then n else m)"

definition bidx :: "nat \<Rightarrow> nat \<Rightarrow> nat" where
  "bidx m i = (if m = 1 then 0 else i)"

definition broadcast2 ::
  "(real \<Rightarrow> real \<Rightarrow> real) \<Rightarrow> real tensor4 \<Rightarrow> real tensor4 \<Rightarrow> error + real tensor4" where
  "broadcast2 f a b =
     (if \<not> broadcastable a b then Inl RuntimeError
      else Inr \<lparr>dimN = bdim (dimN a) (dimN b), dimC = bdim (dimC a) (dimC b),
                dimH = bdim (dimH a) (dimH b), dimW = bdim (dimW a) (dimW b),
                elem = \<lambda>n c i j.
                  f (elem a (bidx (dimN a) n) (bidx (dimC a) c) (bidx (dimH a) i) (bidx (dimW a) j))
                    (elem b (bidx (dimN b) n) (bidx (dimC b) c) (bidx (dimH b) i) (bidx (dimW b) j))\<rparr>)"

definition torch_abs :: "real tensor4 \<Rightarrow> real tensor4" where
  "torch_abs x = x\<lparr>elem := \<lambda>n c i j. \<bar>elem x n c i j\<bar>\<rparr>"

definition torch_sum :: "real tensor4 \<Rightarrow> real" where
  "torch_sum x =
     (\<Sum>n \<leftarrow> [0..<dimN x]. \<Sum>c \<leftarrow> [0..<dimC x]. \<Sum>i \<leftarrow> [0..<dimH x]. \<Sum>j \<leftarrow> [0..<dimW x].
        elem x n c i j)"

definition numel :: "real tensor4 \<Rightarrow> nat" where
  "numel x = dimN x * dimC x * dimH x * dimW x"

definition torch_mean :: "real tensor4 \<Rightarrow> real option" where
  "torch_mean x = (if numel x = 0 then None else Some (torch_sum x / real (numel x)))"

definition torch_div :: "real \<Rightarrow> real \<Rightarrow> real option" where
  "torch_div a b = (if b = 0 then None else Some (a / b))"

text \<open>
  \<open>torch.var(x, dim=1)\<close>: the unbiased variance over axis 1 (divisor \<open>C - 1\<close>). With fewer
  than two entries along the axis every variance is NaN, and so is their mean: \<open>None\<close>. The
  reduced axis is kept with size 1, which does not change the mean taken afterwards.
\<close>

definition torch_var_dim1 :: "real tensor4 \<Rightarrow> real tensor4 option" where
  "torch_var_dim1 x =
     (if dimC x \<le> 1 then None
      else Some \<lparr>dimN = dimN x, dimC = 1, dimH = dimH x, dimW = dimW x,
                 elem = \<lambda>n c i j.
                   (let xs = map (\<lambda>e. elem x n e i j) [0..<dimC x];
                        mu = sum_list xs / real (dimC x)
                    in (\<Sum>v \<leftarrow> xs. (v - mu)\<^sup>2) / real (dimC x - 1))\<rparr>)"

text \<open>
  \<^verbatim>\<open>
  class EnsembleVarianceRegularizationLoss(nn.Module):
      def __init__(self, alpha=0.1):
          self.alpha = alpha
      def forward(self, outputs, target):
          l1_loss = torch.mean(torch.abs(outputs - target))
          ensemble_variance = torch.var(outputs, dim=1)
          regularization_loss = -self.alpha * torch.mean(ensemble_variance)
          return l1_loss + regularization_loss
  \<close>
\<close>

definition EnsembleVarianceRegularizationLoss_forward ::
  "real \<Rightarrow> real tensor4 \<Rightarrow> real tensor4 \<Rightarrow> error + real option" where
  "EnsembleVarianceRegularizationLoss_forward alpha outputs target =
     ebind (broadcast2 (\<lambda>a b. a - b) outputs target) (\<lambda>diff.
       let l1_loss = torch_mean (torch_abs diff);
           ensemble_variance = torch_var_dim1 outputs;
           regularization_loss =
             map_option (\<lambda>m. - alpha * m) (Option.bind ensemble_variance torch_mean)
       in Inr (case (l1_loss, regularization_loss) of
                 (Some a, Some b) \<Rightarrow> Some (a + b)
               | _ \<Rightarrow> None))"

text \<open>
  The loss in the words of claim C8: the mean absolute error minus \<open>alpha\<close> times the mean
  over the batch and the grid of the variance across the ensemble members.
\<close>

definition mean_abs_error :: "real tensor4 \<Rightarrow> real tensor4 \<Rightarrow> real" where
  "mean_abs_error outputs target =
     (\<Sum>n<dimN outputs. \<Sum>c<dimC outputs. \<Sum>i<dimH outputs. \<Sum>j<dimW outputs.
        \<bar>elem outputs n c i j - elem target n c i j\<bar>)
     / real (dimN outputs * dimC outputs * dimH outputs * dimW outputs)"

definition member_variance :: "real tensor4 \<Rightarrow> nat \<Rightarrow> nat \<Rightarrow> nat \<Rightarrow> real" where
  "member_variance outputs n i j =
     (\<Sum>c<dimC outputs. (elem outputs n c i j
         - (\<Sum>e<dimC outputs. elem outputs n e i j) / real (dimC outputs))\<^sup>2)
     / real (dimC outputs - 1)"

definition mean_member_variance :: "real tensor4 \<Rightarrow> real" where
  "mean_member_variance outputs =
     (\<Sum>n<dimN outputs. \<Sum>i<dimH outputs. \<Sum>j<dimW outputs. member_variance outputs n i j)
     / real (dimN outputs * dimH outputs * dimW outputs)"

text \<open>
  \<^verbatim>\<open>
  class MaskedLoss(nn.Module):
      def __init__(self, loss_fn):
          self.loss_fn = loss_fn
      def forward(self, outputs, target, mask):
          loss = self.loss_fn(outputs, target)
          masked_loss = loss * mask
          mean_loss = torch.sum(masked_loss) / torch.sum(mask)
          return mean_loss
  \<close>
  The wrapped loss function is a parameter; \<open>msk\<close> is the argument \<open>mask\<close>.
\<close>

definition MaskedLoss_forward ::
  "(real tensor4 \<Rightarrow> real tensor4 \<Rightarrow> error + real tensor4)
     \<Rightarrow> real tensor4 \<Rightarrow> real tensor4 \<Rightarrow> real tensor4 \<Rightarrow> error + real option" where
  "MaskedLoss_forward loss_fn outputs target msk =
     ebind (loss_fn outputs target) (\<lambda>loss.
     ebind (broadcast2 (\<lambda>a b. a * b) loss msk) (\<lambda>masked_loss.
       Inr (torch_div (torch_sum masked_loss) (torch_sum msk))))"

text \<open>An entry-by-entry absolute error, as \<open>nn.L1Loss(reduction='none')\<close> computes it.\<close>

definition l1_none :: "real tensor4 \<Rightarrow> real tensor4 \<Rightarrow> error + real tensor4" where
  "l1_none outputs target =
     ebind (broadcast2 (\<lambda>a b. a - b) outputs target) (\<lambda>diff. Inr (torch_abs diff))"

text \<open>
  Example tensors of shape (1, 2, 1, 1) and (1, 1, 1, 2): two ensemble members 1 and 3, a
  zero target, and masks with the entries 1, 0 and 1, -1.
\<close>

definition members13 :: "real tensor4" where
  "members13 = \<lparr>dimN = 1, dimC = 2, dimH = 1, dimW = 1,
                elem = \<lambda>n c i j. if c = 0 then 1 else 3\<rparr>"

definition zeros_like :: "real tensor4 \<Rightarrow> real tensor4" where
  "zeros_like x = x\<lparr>elem := \<lambda>n c i j. 0\<rparr>"

definition row13 :: "real tensor4" where
  "row13 = \<lparr>dimN = 1, dimC = 1, dimH = 1, dimW = 2,
            elem = \<lambda>n c i j. if j = 0 then 1 else 3\<rparr>"

definition mask10 :: "real tensor4" where
  "mask10 = \<lparr>dimN = 1, dimC = 1, dimH = 1, dimW = 2,
             elem = \<lambda>n c i j. if j = 0 then 1 else 0\<rparr>"

definition mask_pm :: "real tensor4" where
  "mask_pm = \<lparr>dimN = 1, dimC = 1, dimH = 1, dimW = 2,
              elem = \<lambda>n c i j. if j = 0 then 1 else - 1\<rparr>"

section \<open>Experiment tracking\<close>

text \<open>
  \<open>mlflow.search_runs\<close> belongs to the tracking library. Its parameter
  \<open>experiment_names\<close> is meant to be a list of names: the library loops over it, looks
  each element up as an experiment name and collects the runs of the experiments it finds;
  when the argument is empty it searches the active experiment. \<open>get_runs\<close> passes a str,
  and the elements of a str are its characters, so each character is looked up as a
  one-letter experiment name. By the parameter \<open>output_format\<close> the result is a pandas
  DataFrame with one row per run (\<open>"pandas"\<close>, the default) or a list of runs (\<open>"list"\<close>).

  The tracking store is a parameter: the run ids recorded under each experiment name (none
  for a name without experiment) and the name of the active experiment.

  The truth value that \<open>not runs\<close> asks for: a list is false when empty; for a DataFrame,
  with or without rows, pandas raises ValueError (the truth value of a DataFrame is
  ambiguous).
\<close>

record tracking =
  runs_of :: "string \<Rightarrow> string list"
  active_experiment :: string

datatype output_format = Pandas | ListOfRuns

datatype search_result = DataFrame "string list" | RunList "string list"

definition searched_names :: "tracking \<Rightarrow> string \<Rightarrow> string list" where
  "searched_names store experiment_names =
     (if experiment_names = [] then [active_experiment store]
      else map (\<lambda>c. [c]) experiment_names)"

definition search_runs :: "tracking \<Rightarrow> string \<Rightarrow> output_format \<Rightarrow> search_result" where
  "search_runs store experiment_names fmt =
     (let runs = concat (map (runs_of store) (searched_names store experiment_names))
      in case fmt of Pandas \<Rightarrow> DataFrame runs | ListOfRuns \<Rightarrow> RunList runs)"

definition py_not :: "search_result \<Rightarrow> error + bool" where
  "py_not r = (case r of DataFrame rows \<Rightarrow> Inl ValueError | RunList rs \<Rightarrow> Inr (rs = []))"

text \<open>
  \<^verbatim>\<open>
  def get_runs(experiment_name: str) -> List[mlflow.entities.Run]:
      """...
      Raises:
          ValueError: If no runs are found for the given experiment name.
      """
      runs = mlflow.search_runs(experiment_names=experiment_name)
      if not runs:
          raise ValueError(f"No runs found in experiment: {experiment_name}")
      return runs
  \<close>
  \<open>get_runs_with\<close> is the body with the output format as a parameter; \<open>get_runs\<close> is the
  function of the source, which leaves the format at its default.
\<close>

definition get_runs_with ::
  "output_format \<Rightarrow> tracking \<Rightarrow> string \<Rightarrow> error + search_result" where
  "get_runs_with fmt store experiment_name =
     (let runs = search_runs store experiment_name fmt
      in ebind (py_not runs) (\<lambda>no_runs. if no_runs then Inl ValueError else Inr runs))"

definition get_runs :: "tracking \<Rightarrow> string \<Rightarrow> error + search_result" where
  "get_runs store experiment_name = get_runs_with Pandas store experiment_name"

text \<open>
  An example tracking store: one run in the experiment W, none elsewhere; the active
  experiment is Default.
\<close>

definition tracking_w :: tracking where
  "tracking_w = \<lparr>runs_of = (\<lambda>name. if name = ''W'' then [''run1''] else []),
                  active_experiment = ''Default''\<rparr>"

section \<open>Properties of UNet.crop\<close>

lemma slice_index_int: "slice_index n (int k) = min n k"
  by (simp add: slice_index_def)

lemma slice_index_int_diff:
  assumes "k \<le> n"
  shows "slice_index n (int n - int k) = n - k"
proof -
  have "int n - int k = int (n - k)" using assms by (rule of_nat_diff [symmetric])
  then have "slice_index n (int n - int k) = slice_index n (int (n - k))" by (rule arg_cong)
  also have "\<dots> = min n (n - k)" by (rule slice_index_int)
  also have "\<dots> = n - k" by simp
  finally show ?thesis .
qed

lemma slice_index_one: "slice_index n 1 = min n 1"
  by (simp add: slice_index_def)

lemma slice_rows_sel:
  "dimN (slice_rows t a b) = dimN t" "dimC (slice_rows t a b) = dimC t"
  "dimW (slice_rows t a b) = dimW t"
  "dimH (slice_rows t a b) = slice_index (dimH t) b - slice_index (dimH t) a"
  "elem (slice_rows t a b) n c i j = elem t n c (slice_index (dimH t) a + i) j"
  by (simp_all add: slice_rows_def Let_def)

lemma slice_cols_sel:
  "dimN (slice_cols t a b) = dimN t" "dimC (slice_cols t a b) = dimC t"
  "dimH (slice_cols t a b) = dimH t"
  "dimW (slice_cols t a b) = slice_index (dimW t) b - slice_index (dimW t) a"
  "elem (slice_cols t a b) n c i j = elem t n c i (slice_index (dimW t) a + j)"
  by (simp_all add: slice_cols_def Let_def)

lemma int_diff_div2:
  assumes "m \<le> n"
  shows "(int n - int m) div 2 = int ((n - m) div 2)"
proof -
  have "int n - int m = int (n - m)" using assms by (rule of_nat_diff [symmetric])
  then have "(int n - int m) div 2 = int (n - m) div 2" by (rule arg_cong)
  also have "\<dots> = int ((n - m) div 2)" by (simp only: zdiv_int of_nat_numeral)
  finally show ?thesis .
qed

lemma int_diff_mod2:
  assumes "m \<le> n"
  shows "((int n - int m) mod 2 = 1) = ((n - m) mod 2 = 1)"
proof -
  have "int n - int m = int (n - m)" using assms by (rule of_nat_diff [symmetric])
  then have "(int n - int m) mod 2 = int (n - m) mod 2" by (rule arg_cong)
  also have "\<dots> = int ((n - m) mod 2)" by (simp only: zmod_int of_nat_numeral)
  finally have "(int n - int m) mod 2 = int ((n - m) mod 2)" .
  then show ?thesis by (simp only: of_nat_eq_1_iff)
qed

lemma halves_split:
  fixes m n :: nat
  assumes "m \<le> n"
  shows "n = m + (n - m) div 2 + (n - m) div 2 + (n - m) mod 2"
proof -
  define q r where "q = (n - m) div 2" and "r = (n - m) mod 2"
  have "n - m = 2 * q + r" unfolding q_def r_def by simp
  then have "n = m + q + q + r" using assms by linarith
  then show ?thesis unfolding q_def r_def .
qed

lemma axis_first_slice:
  assumes "m \<le> n"
  shows "slice_index n (int n - int ((n - m) div 2)) - slice_index n (int ((n - m) div 2))
         = m + (n - m) mod 2"
proof -
  define q r where "q = (n - m) div 2" and "r = (n - m) mod 2"
  have n: "n = m + q + q + r" unfolding q_def r_def using assms by (rule halves_split)
  have le: "q \<le> n" using n by linarith
  have a: "slice_index n (int n - int q) = n - q"
    using le by (rule slice_index_int_diff)
  have b: "slice_index n (int q) = q"
    using le by (simp only: slice_index_int min_absorb2)
  have "n - q - q = m + r" using n by linarith
  then have "slice_index n (int n - int q) - slice_index n (int q) = m + r"
    by (simp only: a b)
  then show ?thesis unfolding q_def r_def .
qed

lemma crop_dimN: "dimN (crop e d) = dimN e"
  by (simp add: crop_def Let_def slice_rows_sel slice_cols_sel)

lemma crop_dimC: "dimC (crop e d) = dimC e"
  by (simp add: crop_def Let_def slice_rows_sel slice_cols_sel)

lemma crop_dimH_axis: "dimH (crop e d) = axis_size (dimH e) (dimH d)"
  by (simp add: crop_def axis_size_def Let_def slice_rows_sel slice_cols_sel)

lemma crop_dimW_axis: "dimW (crop e d) = axis_size (dimW e) (dimW d)"
  by (simp add: crop_def axis_size_def Let_def slice_rows_sel slice_cols_sel)

lemma crop_elem_axis:
  "elem (crop e d) n c i j =
     elem e n c (axis_start (dimH e) (dimH d) + i) (axis_start (dimW e) (dimW d) + j)"
  by (simp add: crop_def axis_start_def Let_def slice_rows_sel slice_cols_sel add.assoc)

lemma axis_size_le:
  assumes "m \<le> n"
  shows "axis_size n m = m"
proof -
  define q r where "q = (n - m) div 2" and "r = (n - m) mod 2"
  have dq: "(int n - int m) div 2 = int q"
    unfolding q_def using assms by (rule int_diff_div2)
  have dr: "((int n - int m) mod 2 = 1) = (r = 1)"
    unfolding r_def using assms by (rule int_diff_mod2)
  have n1: "slice_index n (int n - int q) - slice_index n (int q) = m + r"
    unfolding q_def r_def using assms by (rule axis_first_slice)
  have r01: "r = 0 \<or> r = 1" unfolding r_def by arith
  have unf: "axis_size n m =
      (if r = 1 then slice_index (m + r) (int (m + r)) - slice_index (m + r) 1 else m + r)"
    by (simp only: axis_size_def Let_def dq dr n1)
  show ?thesis
  proof (cases "r = 1")
    case True
    have a: "slice_index (m + 1) (int (m + 1)) = m + 1"
      by (simp only: slice_index_int min.idem)
    have b: "slice_index (m + 1) 1 = 1"
      by (simp add: slice_index_one)
    show ?thesis
      unfolding unf True by (simp only: a b diff_add_inverse2 simp_thms if_True)
  next
    case False
    then have "r = 0" using r01 by simp
    then show ?thesis unfolding unf by simp
  qed
qed

lemma axis_start_le:
  assumes "m \<le> n"
  shows "axis_start n m = (n - m) div 2 + (n - m) mod 2"
proof -
  define q r where "q = (n - m) div 2" and "r = (n - m) mod 2"
  have dq: "(int n - int m) div 2 = int q"
    unfolding q_def using assms by (rule int_diff_div2)
  have dr: "((int n - int m) mod 2 = 1) = (r = 1)"
    unfolding r_def using assms by (rule int_diff_mod2)
  have n1: "slice_index n (int n - int q) - slice_index n (int q) = m + r"
    unfolding q_def r_def using assms by (rule axis_first_slice)
  have n: "n = m + q + q + r" unfolding q_def r_def using assms by (rule halves_split)
  have qn: "slice_index n (int q) = q"
    using n by (simp add: slice_index_int)
  have r01: "r = 0 \<or> r = 1" unfolding r_def by arith
  have n1': "slice_index n (int n - int q) - q = m + r"
    using n1 by (simp only: qn)
  have unf: "axis_start n m = (if r = 1 then q + slice_index (m + r) 1 else q)"
    by (simp only: axis_start_def Let_def dq dr qn n1')
  have "axis_start n m = q + r"
  proof (cases "r = 1")
    case True
    then show ?thesis unfolding unf by (simp add: slice_index_one)
  next
    case False
    then have "r = 0" using r01 by simp
    then show ?thesis unfolding unf by simp
  qed
  then show ?thesis unfolding q_def r_def .
qed

lemma enc33_dec22_sizes:
  "dimH enc33 = 3" "dimW enc33 = 3" "dimH dec22 = 2" "dimW dec22 = 2"
  by (simp_all add: enc33_def dec22_def)

lemma crop_enc33_dims:
  "dimH (crop enc33 dec22) = 2" "dimW (crop enc33 dec22) = 2"
  by (simp_all only: crop_dimH_axis crop_dimW_axis enc33_dec22_sizes)
     (simp_all add: axis_size_le)

text \<open>
  Claim C1. When the encoder map is at least as high and as wide as the decoder map, crop
  returns a tensor with the batch and channel sizes of the encoder map and the height and
  width of the decoder map.
\<close>

theorem crop_shape:
  assumes "dimH decoder_layer \<le> dimH encoder_layer"
    and "dimW decoder_layer \<le> dimW encoder_layer"
  shows "shape (crop encoder_layer decoder_layer) =
           (dimN encoder_layer, dimC encoder_layer, dimH decoder_layer, dimW decoder_layer)"
  using assms
  by (simp add: shape_def crop_dimN crop_dimC crop_dimH_axis crop_dimW_axis axis_size_le)

theorem crop_shape_witness:
  "dimH dec22 \<le> dimH enc33 \<and> dimW dec22 \<le> dimW enc33 \<and>
   shape (crop enc33 dec22) = (1, 1, 2, 2)"
proof -
  have h: "dimH dec22 \<le> dimH enc33" "dimW dec22 \<le> dimW enc33"
    by (simp_all add: enc33_dec22_sizes)
  have "shape (crop enc33 dec22) = (dimN enc33, dimC enc33, dimH dec22, dimW dec22)"
    using h by (rule crop_shape)
  also have "\<dots> = (1, 1, 2, 2)" by (simp add: enc33_def dec22_def)
  finally show ?thesis using h by simp
qed

text \<open>
  Claim C2 as stated (the same number of rows and of columns is removed on both sides)
  fails when a size difference is odd: cropping a 3x3 map to 2x2 removes one row at the top
  and none at the bottom.
\<close>

theorem crop_not_symmetric: "\<not> symmetric_crop_of (crop enc33 dec22) enc33"
proof
  assume "symmetric_crop_of (crop enc33 dec22) enc33"
  then obtain ky where "dimH enc33 = ky + dimH (crop enc33 dec22) + ky"
    unfolding symmetric_crop_of_def by blast
  then have "3 = ky + 2 + ky"
    by (simp only: crop_enc33_dims enc33_dec22_sizes)
  then show False by arith
qed

text \<open>
  Claim C2, amended. With \<open>diff\<close> the size difference along an axis, crop removes
  \<open>diff div 2 + diff mod 2\<close> rows (columns) on the leading side and \<open>diff div 2\<close> on
  the trailing side; the crop is symmetric exactly when both differences are even.
\<close>

theorem crop_offsets:
  assumes "dimH d \<le> dimH e" and "dimW d \<le> dimW e"
  shows "dimH e = ((dimH e - dimH d) div 2 + (dimH e - dimH d) mod 2)
                    + dimH (crop e d) + (dimH e - dimH d) div 2
       \<and> dimW e = ((dimW e - dimW d) div 2 + (dimW e - dimW d) mod 2)
                    + dimW (crop e d) + (dimW e - dimW d) div 2
       \<and> (\<forall>n c i j. elem (crop e d) n c i j =
             elem e n c ((dimH e - dimH d) div 2 + (dimH e - dimH d) mod 2 + i)
                        ((dimW e - dimW d) div 2 + (dimW e - dimW d) mod 2 + j))
       \<and> (symmetric_crop_of (crop e d) e \<longleftrightarrow>
             even (dimH e - dimH d) \<and> even (dimW e - dimW d))"
proof -
  let ?qy = "(dimH e - dimH d) div 2" and ?ry = "(dimH e - dimH d) mod 2"
  let ?qx = "(dimW e - dimW d) div 2" and ?rx = "(dimW e - dimW d) mod 2"
  have hy: "dimH e = dimH d + ?qy + ?qy + ?ry"
    using assms(1) by (rule halves_split)
  have hx: "dimW e = dimW d + ?qx + ?qx + ?rx"
    using assms(2) by (rule halves_split)
  have ch: "dimH (crop e d) = dimH d"
    using assms(1) by (simp only: crop_dimH_axis axis_size_le)
  have cw: "dimW (crop e d) = dimW d"
    using assms(2) by (simp only: crop_dimW_axis axis_size_le)
  have el: "elem (crop e d) n c i j = elem e n c (?qy + ?ry + i) (?qx + ?rx + j)" for n c i j
    using assms by (simp only: crop_elem_axis axis_start_le)
  have c1: "dimH e = (?qy + ?ry) + dimH (crop e d) + ?qy"
    using hy unfolding ch by linarith
  have c2: "dimW e = (?qx + ?rx) + dimW (crop e d) + ?qx"
    using hx unfolding cw by linarith
  have c3: "\<forall>n c i j. elem (crop e d) n c i j = elem e n c (?qy + ?ry + i) (?qx + ?rx + j)"
    using el by (intro allI)
  have c4: "symmetric_crop_of (crop e d) e \<longleftrightarrow>
              even (dimH e - dimH d) \<and> even (dimW e - dimW d)"
  proof
    assume "symmetric_crop_of (crop e d) e"
    then obtain ky kx where k: "dimH e = ky + dimH (crop e d) + ky"
      "dimW e = kx + dimW (crop e d) + kx"
      unfolding symmetric_crop_of_def by blast
    have "dimH e - dimH d = 2 * ky" using k(1) unfolding ch by linarith
    moreover have "dimW e - dimW d = 2 * kx" using k(2) unfolding cw by linarith
    ultimately show "even (dimH e - dimH d) \<and> even (dimW e - dimW d)"
      by (simp only: even_mult_iff even_numeral simp_thms)
  next
    assume ev: "even (dimH e - dimH d) \<and> even (dimW e - dimW d)"
    then have ry: "?ry = 0" and rx: "?rx = 0"
      by (simp_all only: even_iff_mod_2_eq_zero)
    have b1: "?qy \<in> {0..dimH e}" and b2: "?qx \<in> {0..dimW e}"
      by simp_all
    have s1: "dimH e = ?qy + dimH (crop e d) + ?qy"
      using c1 unfolding ry by (simp only: add_0_right)
    have s2: "dimW e = ?qx + dimW (crop e d) + ?qx"
      using c2 unfolding rx by (simp only: add_0_right)
    have s3: "elem (crop e d) n c i j = elem e n c (?qy + i) (?qx + j)" for n c i j
      using el [of n c i j] unfolding ry rx by (simp only: add_0_right)
    show "symmetric_crop_of (crop e d) e"
      unfolding symmetric_crop_of_def
    proof (intro bexI [OF _ b1] bexI [OF _ b2] conjI allI impI)
      show "dimH e = ?qy + dimH (crop e d) + ?qy" by (rule s1)
      show "dimW e = ?qx + dimW (crop e d) + ?qx" by (rule s2)
      show "elem (crop e d) n c i j = elem e n c (?qy + i) (?qx + j)" for n c i j
        by (rule s3)
    qed
  qed
  show ?thesis by (rule conjI [OF c1 conjI [OF c2 conjI [OF c3 c4]]])
qed

theorem crop_offsets_witness:
  "dimH dec22 \<le> dimH enc33 \<and> dimW dec22 \<le> dimW enc33 \<and>
   dimH enc33 = 1 + dimH (crop enc33 dec22) + 0 \<and>
   elem (crop enc33 dec22) 0 0 0 0 = elem enc33 0 0 1 1"
proof -
  have h: "dimH dec22 \<le> dimH enc33" "dimW dec22 \<le> dimW enc33"
    by (simp_all add: enc33_dec22_sizes)
  have q: "(dimH enc33 - dimH dec22) div 2 = 0" "(dimH enc33 - dimH dec22) mod 2 = 1"
    "(dimW enc33 - dimW dec22) div 2 = 0" "(dimW enc33 - dimW dec22) mod 2 = 1"
    by (simp_all add: enc33_dec22_sizes)
  note th = crop_offsets [OF h, unfolded q]
  have a: "dimH enc33 = 1 + dimH (crop enc33 dec22) + 0"
    using th by simp
  have "\<forall>n c i j. elem (crop enc33 dec22) n c i j = elem enc33 n c (0 + 1 + i) (0 + 1 + j)"
    using th by (elim conjE)
  then have b: "elem (crop enc33 dec22) 0 0 0 0 = elem enc33 0 0 1 1"
    by simp
  show ?thesis using h a b by simp
qed

section \<open>Properties of UNet.forward\<close>

lemma ebind_Inr: "ebind (Inr x) f = f x"
  by (simp add: ebind_def)

lemma ebind_Inl: "ebind (Inl e) f = Inl e"
  by (simp add: ebind_def)

lemma shape_activation: "shape (activation x) = shape x"
  by (simp add: shape_def activation_def)

lemma conv3x3_shape:
  assumes "shape x = (n, cin, h, w)" and "0 < h" and "0 < w" and "0 < cout" and "0 < cin"
  obtains y where "conv2d_apply (Conv2d cin cout 3 1 wt bs) x = Inr y"
    and "shape y = (n, cout, h, w)"
proof
  show "conv2d_apply (Conv2d cin cout 3 1 wt bs) x
          = Inr (conv2d_out (Conv2d cin cout 3 1 wt bs) x)"
    using assms by (simp add: conv2d_apply_def Conv2d_def shape_def)
  show "shape (conv2d_out (Conv2d cin cout 3 1 wt bs) x) = (n, cout, h, w)"
    using assms by (simp add: conv2d_out_def Conv2d_def shape_def)
qed

lemma conv1x1_shape:
  assumes "shape x = (n, cin, h, w)" and "0 < h" and "0 < w" and "0 < cout" and "0 < cin"
  obtains y where "conv2d_apply (Conv2d cin cout 1 0 wt bs) x = Inr y"
    and "shape y = (n, cout, h, w)"
proof
  show "conv2d_apply (Conv2d cin cout 1 0 wt bs) x
          = Inr (conv2d_out (Conv2d cin cout 1 0 wt bs) x)"
    using assms by (simp add: conv2d_apply_def Conv2d_def shape_def)
  show "shape (conv2d_out (Conv2d cin cout 1 0 wt bs) x) = (n, cout, h, w)"
    using assms by (simp add: conv2d_out_def Conv2d_def shape_def)
qed

lemma maxpool2x2_shape:
  assumes "shape x = (n, c, 2 * h, 2 * w)" and "0 < h" and "0 < w"
  obtains y where "maxpool2d_apply (MaxPool2d 2 2) x = Inr y"
    and "shape y = (n, c, h, w)"
proof
  show "maxpool2d_apply (MaxPool2d 2 2) x = Inr (maxpool2d_out (MaxPool2d 2 2) x)"
    using assms by (simp add: maxpool2d_apply_def MaxPool2d_def shape_def)
  have "(2 * h - 2) div 2 + 1 = h" "(2 * w - 2) div 2 + 1 = w"
    using assms(2,3) by simp_all
  then show "shape (maxpool2d_out (MaxPool2d 2 2) x) = (n, c, h, w)"
    using assms(1) by (simp add: maxpool2d_out_def MaxPool2d_def shape_def)
qed

lemma upconv2x2_shape:
  assumes "shape x = (n, cin, h, w)" and "0 < h" and "0 < w"
  obtains y where "conv_transpose2d_apply (ConvTranspose2d cin cout 2 2 wt bs) x = Inr y"
    and "shape y = (n, cout, 2 * h, 2 * w)"
proof
  show "conv_transpose2d_apply (ConvTranspose2d cin cout 2 2 wt bs) x
          = Inr (conv_transpose2d_out (ConvTranspose2d cin cout 2 2 wt bs) x)"
    using assms by (simp add: conv_transpose2d_apply_def ConvTranspose2d_def shape_def)
  have "(h - 1) * 2 + 2 = 2 * h" "(w - 1) * 2 + 2 = 2 * w"
    using assms(2,3) by simp_all
  then show "shape (conv_transpose2d_out (ConvTranspose2d cin cout 2 2 wt bs) x)
               = (n, cout, 2 * h, 2 * w)"
    using assms(1) by (simp add: conv_transpose2d_out_def ConvTranspose2d_def shape_def)
qed

lemma cat1_shape:
  assumes "shape a = (n, ca, h, w)" and "shape b = (n, cb, h, w)"
  obtains z where "cat1 a b = Inr z" and "shape z = (n, ca + cb, h, w)"
proof
  let ?z = "\<lparr>dimN = dimN a, dimC = dimC a + dimC b, dimH = dimH a, dimW = dimW a,
             elem = \<lambda>n c i j. if c < dimC a then elem a n c i j
                                else elem b n (c - dimC a) i j\<rparr>"
  show "cat1 a b = Inr ?z"
    using assms by (simp add: cat1_def shape_def)
  show "shape ?z = (n, ca + cb, h, w)"
    using assms by (simp add: shape_def)
qed

lemma conv_pool_shape:
  assumes "shape x = (n, cin, 2 * h, 2 * w)" and "0 < h" and "0 < w" and "0 < cout"
    and "0 < cin"
  obtains y where "conv_pool (Conv2d cin cout 3 1 wt bs) (MaxPool2d 2 2) x = Inr y"
    and "shape y = (n, cout, h, w)"
proof -
  have pos: "0 < 2 * h" "0 < 2 * w" using assms(2,3) by simp_all
  obtain v where v: "conv2d_apply (Conv2d cin cout 3 1 wt bs) x = Inr v"
    "shape v = (n, cout, 2 * h, 2 * w)"
    using conv3x3_shape [OF assms(1) pos assms(4,5)] by blast
  obtain u where u: "maxpool2d_apply (MaxPool2d 2 2) v = Inr u" "shape u = (n, cout, h, w)"
    using maxpool2x2_shape [OF v(2) assms(2,3)] by blast
  have "conv_pool (Conv2d cin cout 3 1 wt bs) (MaxPool2d 2 2) x = Inr (activation u)"
    by (simp only: conv_pool_def v(1) u(1) ebind_Inr)
  moreover have "shape (activation u) = (n, cout, h, w)"
    by (simp only: shape_activation u(2))
  ultimately show ?thesis by (rule that)
qed

lemma up_block_shape:
  assumes "shape xd = (n, cin, h, w)" and "shape xe = (n, cup, 2 * h, 2 * w)"
    and "0 < h" and "0 < w" and "0 < cout" and "0 < cup"
  obtains y where
    "up_block (ConvTranspose2d cin cup 2 2 wt bs) (Conv2d (cup + cup) cout 3 1 wt' bs') xd xe k
       = Inr (y, k)"
    and "shape y = (n, cout, 2 * h, 2 * w)"
proof -
  have pos: "0 < 2 * h" "0 < 2 * w" using assms(3,4) by simp_all
  obtain u where u: "conv_transpose2d_apply (ConvTranspose2d cin cup 2 2 wt bs) xd = Inr u"
    "shape u = (n, cup, 2 * h, 2 * w)"
    using upconv2x2_shape [OF assms(1,3,4)] by blast
  have su: "shape (activation u) = (n, cup, 2 * h, 2 * w)"
    by (simp only: shape_activation u(2))
  have sk: "skip_connection xe (activation u) k = (xe, k)"
    by (simp add: skip_connection_def su assms(2))
  have cc: "0 < cup + cup" using assms(6) by simp
  obtain z where z: "cat1 xe (activation u) = Inr z" "shape z = (n, cup + cup, 2 * h, 2 * w)"
    using cat1_shape [OF assms(2) su] by blast
  obtain v where v: "conv2d_apply (Conv2d (cup + cup) cout 3 1 wt' bs') z = Inr v"
    "shape v = (n, cout, 2 * h, 2 * w)"
    using conv3x3_shape [OF z(2) pos assms(5) cc] by blast
  have "up_block (ConvTranspose2d cin cup 2 2 wt bs) (Conv2d (cup + cup) cout 3 1 wt' bs') xd xe k
          = Inr (activation v, k)"
    by (simp only: up_block_def u(1) ebind_Inr Let_def sk prod.case z(1) v(1))
  moreover have "shape (activation v) = (n, cout, 2 * h, 2 * w)"
    by (simp only: shape_activation v(2))
  ultimately show ?thesis by (rule that)
qed

lemma UNet_init_sel:
  "conv1 (UNet_init ci co w b) = Conv2d ci 64 3 1 (w 1) (b 1)"
  "pool1 (UNet_init ci co w b) = MaxPool2d 2 2"
  "conv2 (UNet_init ci co w b) = Conv2d 64 128 3 1 (w 2) (b 2)"
  "pool2 (UNet_init ci co w b) = MaxPool2d 2 2"
  "conv3 (UNet_init ci co w b) = Conv2d 128 256 3 1 (w 3) (b 3)"
  "pool3 (UNet_init ci co w b) = MaxPool2d 2 2"
  "conv4 (UNet_init ci co w b) = Conv2d 256 512 3 1 (w 4) (b 4)"
  "upconv1 (UNet_init ci co w b) = ConvTranspose2d 512 256 2 2 (w 5) (b 5)"
  "conv5 (UNet_init ci co w b) = Conv2d (256 + 256) 256 3 1 (w 6) (b 6)"
  "upconv2 (UNet_init ci co w b) = ConvTranspose2d 256 128 2 2 (w 7) (b 7)"
  "conv6 (UNet_init ci co w b) = Conv2d (128 + 128) 128 3 1 (w 8) (b 8)"
  "upconv3 (UNet_init ci co w b) = ConvTranspose2d 128 64 2 2 (w 9) (b 9)"
  "conv7 (UNet_init ci co w b) = Conv2d (64 + 64) 64 3 1 (w 10) (b 10)"
  "outconv (UNet_init ci co w b) = Conv2d 64 co 1 0 (w 11) (b 11)"
  by (simp_all add: UNet_init_def)

lemma pad_left_replicate_0: "pad_left_replicate 0 x = x"
  by (simp add: pad_left_replicate_def)

lemma forward_run_to_outconv:
  assumes "dimC x = channels_in"
    and "dimH x = 8 * k" and "dimW x = 8 * l" and "0 < k" and "0 < l"
    and "0 < channels_in"
  obtains y3 where "shape y3 = (dimN x, 64, dimH x, dimW x)"
    and "forward_run (UNet_init channels_in channels_out w b) x =
           ebind (conv2d_apply (Conv2d 64 channels_out 1 0 (w 11) (b 11)) y3)
             (\<lambda>out. Inr (pad_left_replicate 0 out, 0))"
proof -
  define n where "n = dimN x"
  define h3 w3 where "h3 = 2 * k" and "w3 = 2 * l"
  define h2 w2 where "h2 = 2 * h3" and "w2 = 2 * w3"
  define h1 w1 where "h1 = 2 * h2" and "w1 = 2 * w2"
  have pos: "0 < h3" "0 < w3" "0 < h2" "0 < w2" "0 < h1" "0 < w1"
    using assms(4,5) by (simp_all add: h3_def w3_def h2_def w2_def h1_def w1_def)
  have hw: "dimH x = h1" "dimW x = w1"
    using assms(2,3) by (simp_all add: h3_def w3_def h2_def w2_def h1_def w1_def)
  have c64: "(0::nat) < 64" and c128: "(0::nat) < 128" and c256: "(0::nat) < 256"
    and c512: "(0::nat) < 512"
    by simp_all
  have sx: "shape x = (n, channels_in, h1, w1)"
    by (simp add: shape_def n_def assms(1) hw)
  obtain v1 where v1: "conv2d_apply (Conv2d channels_in 64 3 1 (w 1) (b 1)) x = Inr v1"
    "shape v1 = (n, 64, h1, w1)"
    using conv3x3_shape [OF sx pos(5,6) c64 assms(6)] by blast
  have s1: "shape (activation v1) = (n, 64, 2 * h2, 2 * w2)"
    by (simp only: shape_activation v1(2) h1_def w1_def)
  obtain x2 where x2:
    "conv_pool (Conv2d 64 128 3 1 (w 2) (b 2)) (MaxPool2d 2 2) (activation v1) = Inr x2"
    "shape x2 = (n, 128, h2, w2)"
    using conv_pool_shape [OF s1 pos(3,4) c128 c64] by blast
  have s2: "shape x2 = (n, 128, 2 * h3, 2 * w3)"
    by (simp only: x2(2) h2_def w2_def)
  obtain x3 where x3:
    "conv_pool (Conv2d 128 256 3 1 (w 3) (b 3)) (MaxPool2d 2 2) x2 = Inr x3"
    "shape x3 = (n, 256, h3, w3)"
    using conv_pool_shape [OF s2 pos(1,2) c256 c128] by blast
  have s3: "shape x3 = (n, 256, 2 * k, 2 * l)"
    by (simp only: x3(2) h3_def w3_def)
  obtain x4 where x4:
    "conv_pool (Conv2d 256 512 3 1 (w 4) (b 4)) (MaxPool2d 2 2) x3 = Inr x4"
    "shape x4 = (n, 512, k, l)"
    using conv_pool_shape [OF s3 assms(4,5) c512 c256] by blast
  obtain y1 where y1:
    "up_block (ConvTranspose2d 512 256 2 2 (w 5) (b 5)) (Conv2d (256 + 256) 256 3 1 (w 6) (b 6))
       x4 x3 0 = Inr (y1, 0)"
    "shape y1 = (n, 256, 2 * k, 2 * l)"
    using up_block_shape [OF x4(2) s3 assms(4,5) c256 c256] by blast
  have t1: "shape y1 = (n, 256, h3, w3)"
    by (simp only: y1(2) h3_def w3_def)
  obtain y2 where y2:
    "up_block (ConvTranspose2d 256 128 2 2 (w 7) (b 7)) (Conv2d (128 + 128) 128 3 1 (w 8) (b 8))
       y1 x2 0 = Inr (y2, 0)"
    "shape y2 = (n, 128, 2 * h3, 2 * w3)"
    using up_block_shape [OF t1 s2 pos(1,2) c128 c128] by blast
  have t2: "shape y2 = (n, 128, h2, w2)"
    by (simp only: y2(2) h2_def w2_def)
  obtain y3 where y3:
    "up_block (ConvTranspose2d 128 64 2 2 (w 9) (b 9)) (Conv2d (64 + 64) 64 3 1 (w 10) (b 10))
       y2 (activation v1) 0 = Inr (y3, 0)"
    "shape y3 = (n, 64, 2 * h2, 2 * w2)"
    using up_block_shape [OF t2 s1 pos(3,4) c64 c64] by blast
  have t3: "shape y3 = (n, 64, h1, w1)"
    by (simp only: y3(2) h1_def w1_def)
  have "shape y3 = (dimN x, 64, dimH x, dimW x)"
    by (simp only: t3 n_def hw)
  moreover have "forward_run (UNet_init channels_in channels_out w b) x =
      ebind (conv2d_apply (Conv2d 64 channels_out 1 0 (w 11) (b 11)) y3)
        (\<lambda>out. Inr (pad_left_replicate 0 out, 0))"
    by (simp only: forward_run_def UNet_init_sel v1(1) x2(1) x3(1) x4(1) y1(1) y2(1) y3(1)
          ebind_Inr Let_def prod.case)
  ultimately show ?thesis by (rule that)
qed

lemma forward_run_multiple_of_8:
  assumes "dimC x = channels_in"
    and "dimH x = 8 * k" and "dimW x = 8 * l" and "0 < k" and "0 < l"
    and "0 < channels_out" and "0 < channels_in"
  obtains out where "forward_run (UNet_init channels_in channels_out w b) x = Inr (out, 0)"
    and "shape out = (dimN x, channels_out, dimH x, dimW x)"
proof -
  obtain y3 where y3: "shape y3 = (dimN x, 64, dimH x, dimW x)"
    "forward_run (UNet_init channels_in channels_out w b) x =
       ebind (conv2d_apply (Conv2d 64 channels_out 1 0 (w 11) (b 11)) y3)
         (\<lambda>out. Inr (pad_left_replicate 0 out, 0))"
    using forward_run_to_outconv [OF assms(1,2,3,4,5,7)] by blast
  have pos: "0 < dimH x" "0 < dimW x" using assms(2,3,4,5) by simp_all
  have c64: "(0::nat) < 64" by simp
  obtain out where out: "conv2d_apply (Conv2d 64 channels_out 1 0 (w 11) (b 11)) y3 = Inr out"
    "shape out = (dimN x, channels_out, dimH x, dimW x)"
    using conv1x1_shape [OF y3(1) pos assms(6) c64] by blast
  have "forward_run (UNet_init channels_in channels_out w b) x = Inr (out, 0)"
    by (simp only: y3(2) out(1) ebind_Inr pad_left_replicate_0)
  then show ?thesis using out(2) by (rule that)
qed

lemma forward_without_output_channels:
  assumes "dimC x = channels_in"
    and "dimH x = 8 * k" and "dimW x = 8 * l" and "0 < k" and "0 < l"
    and "0 < channels_in"
  shows "forward (UNet_init channels_in 0 w b) x = Inl RuntimeError"
proof -
  obtain y3 where y3:
    "forward_run (UNet_init channels_in 0 w b) x =
       ebind (conv2d_apply (Conv2d 64 0 1 0 (w 11) (b 11)) y3)
         (\<lambda>out. Inr (pad_left_replicate 0 out, 0))"
    using forward_run_to_outconv [OF assms] by blast
  have "conv2d_apply (Conv2d 64 0 1 0 (w 11) (b 11)) y3 = Inl RuntimeError"
    by (simp add: conv2d_apply_def Conv2d_def)
  then show ?thesis by (simp only: forward_def y3 ebind_Inl)
qed

lemma forward_without_input_channels:
  assumes "dimC x = 0" and "0 < dimH x" and "0 < dimW x"
  shows "forward (UNet_init 0 channels_out w b) x = Inl RuntimeError"
proof -
  define v1 where "v1 = conv2d_out (Conv2d 0 64 3 1 (w 1) (b 1)) x"
  have a: "conv2d_apply (Conv2d 0 64 3 1 (w 1) (b 1)) x = Inr v1"
    using assms by (simp add: conv2d_apply_def Conv2d_def v1_def)
  have c: "dimC (activation v1) = 0"
    by (simp add: activation_def v1_def conv2d_out_def Conv2d_def)
  have p: "conv_pool (Conv2d 64 128 3 1 (w 2) (b 2)) (MaxPool2d 2 2) (activation v1)
             = Inl RuntimeError"
    using c by (simp add: conv_pool_def conv2d_apply_def Conv2d_def ebind_Inl)
  have "forward_run (UNet_init 0 channels_out w b) x = Inl RuntimeError"
    by (simp only: forward_run_def UNet_init_sel a ebind_Inr Let_def p ebind_Inl)
  then show ?thesis by (simp only: forward_def ebind_Inl)
qed

text \<open>
  Claim C3 as stated fails at two kinds of input. It covers height or width 0, which 8
  divides: there the first convolution rejects the input (the padded size 2 is smaller
  than the kernel size 3). And it covers a network built with \<open>channels_out = 0\<close>: there
  the output convolution is rejected, on an 8x8 input as on any other. In both cases
  forward raises instead of returning a tensor.
\<close>

theorem forward_raises:
  "dimC input00 = 1 \<and> 8 dvd dimH input00 \<and> 8 dvd dimW input00 \<and>
   forward (UNet_init 1 1 (\<lambda>l co ci a b. 0) (\<lambda>l co. 0)) input00 = Inl RuntimeError \<and>
   dimC input88 = 1 \<and> 8 dvd dimH input88 \<and> 8 dvd dimW input88 \<and>
   forward (UNet_init 1 0 (\<lambda>l co ci a b. 0) (\<lambda>l co. 0)) input88 = Inl RuntimeError"
proof -
  have a: "forward (UNet_init 1 1 (\<lambda>l co ci a b. 0) (\<lambda>l co. 0)) input00 = Inl RuntimeError"
    by (simp add: forward_def forward_run_def UNet_init_sel conv2d_apply_def Conv2d_def
          input00_def ebind_Inl)
  have h: "dimC input88 = 1" "dimH input88 = 8 * 1" "dimW input88 = 8 * 1"
    by (simp_all add: input88_def)
  have p: "(0::nat) < 1" by simp
  have b: "forward (UNet_init 1 0 (\<lambda>l co ci a b. 0) (\<lambda>l co. 0)) input88 = Inl RuntimeError"
    using h p p p by (rule forward_without_output_channels)
  show ?thesis using a b by (simp add: input00_def input88_def)
qed

text \<open>
  Claim C3, amended. For a network with at least one input and one output channel and an
  input of shape (N, channels_in, H, W) with H and W positive multiples of 8, forward
  returns a tensor of
  shape (N, channels_out, H, W); no skip connection is cropped (the counter \<open>cropped\<close>
  stays 0), so no replicate padding is added.
\<close>

theorem forward_shape:
  assumes "dimC x = channels_in" and "0 < channels_in" and "0 < channels_out"
    and "0 < dimH x" and "0 < dimW x"
    and "8 dvd dimH x" and "8 dvd dimW x"
  shows "\<exists>out. forward_run (UNet_init channels_in channels_out w b) x = Inr (out, 0)
             \<and> forward (UNet_init channels_in channels_out w b) x = Inr out
             \<and> shape out = (dimN x, channels_out, dimH x, dimW x)"
proof -
  obtain k where k: "dimH x = 8 * k" using assms(6) by (auto elim: dvdE)
  obtain l where l: "dimW x = 8 * l" using assms(7) by (auto elim: dvdE)
  have pos: "0 < k" "0 < l" using assms(4,5) k l by simp_all
  obtain out where out: "forward_run (UNet_init channels_in channels_out w b) x = Inr (out, 0)"
    "shape out = (dimN x, channels_out, dimH x, dimW x)"
    using forward_run_multiple_of_8 [OF assms(1) k l pos assms(3,2)] by blast
  have "forward (UNet_init channels_in channels_out w b) x = Inr out"
    by (simp only: forward_def out(1) ebind_Inr prod.case)
  then show ?thesis using out by blast
qed

theorem forward_shape_witness:
  "dimC input88 = 1 \<and> (0::nat) < 1 \<and> (0::nat) < 1 \<and> 0 < dimH input88 \<and> 0 < dimW input88 \<and>
   8 dvd dimH input88 \<and> 8 dvd dimW input88 \<and>
   (\<exists>out. forward (UNet_init 1 1 (\<lambda>l co ci a b. 0) (\<lambda>l co. 0)) input88 = Inr out
          \<and> shape out = (1, 1, 8, 8))"
proof -
  have h: "dimC input88 = 1" "(0::nat) < 1" "(0::nat) < 1" "0 < dimH input88" "0 < dimW input88"
    "8 dvd dimH input88" "8 dvd dimW input88"
    by (simp_all add: input88_def)
  have d: "dimN input88 = 1" "dimH input88 = 8" "dimW input88 = 8"
    by (simp_all add: input88_def)
  from forward_shape [OF h, of "\<lambda>l co ci a b. 0" "\<lambda>l co. 0"]
  have "\<exists>out. forward (UNet_init 1 1 (\<lambda>l co ci a b. 0) (\<lambda>l co. 0)) input88 = Inr out
          \<and> shape out = (1, 1, 8, 8)"
    unfolding d by blast
  then show ?thesis using h by blast
qed

section \<open>Properties of coarsening, loading and MyDataset\<close>

lemma map_filter_Cons_Some: "List.map_filter (\<lambda>x. x) (Some y # xs) = y # List.map_filter (\<lambda>x. x) xs"
  by (simp add: List.map_filter_def)

lemma map_filter_Cons_None: "List.map_filter (\<lambda>x. x) (None # xs) = List.map_filter (\<lambda>x. x) xs"
  by (simp add: List.map_filter_def)

lemma map_filter_Nil: "List.map_filter (\<lambda>x. x) ([] :: real option list) = []"
  by (simp add: List.map_filter_def)

lemma map_filter_no_None:
  "None \<notin> set xs \<Longrightarrow> List.map_filter (\<lambda>x. x) xs = map the xs"
proof (induction xs)
  case Nil
  show ?case by (simp add: map_filter_Nil)
next
  case (Cons x xs)
  then obtain y where "x = Some y" by (cases x) auto
  then show ?case using Cons by (simp add: map_filter_Cons_Some)
qed

lemma nanmean_arithmetic:
  assumes "None \<notin> set xs"
  shows "nanmean xs = arithmetic_mean xs"
proof (cases "xs = []")
  case True
  then show ?thesis by (simp add: nanmean_def arithmetic_mean_def Let_def map_filter_Nil)
next
  case False
  then show ?thesis
    using assms by (simp add: nanmean_def arithmetic_mean_def Let_def map_filter_no_None)
qed

lemma coarsen_window_ok:
  assumes "0 < factor" and "int (size_height d) mod factor = 0"
    and "int (size_ncells d) mod factor = 0"
  shows "coarsen_window d factor = Inr (nat factor)"
  using assms by (simp add: coarsen_window_def)

lemma coarsen_reduce_sel:
  "size_time (coarsen_reduce r d f) = size_time d"
  "size_member (coarsen_reduce r d f) = size_member d"
  "size_height (coarsen_reduce r d f) = size_height d div f"
  "size_ncells (coarsen_reduce r d f) = size_ncells d div f"
  "cell (coarsen_reduce r d f) t m i j = r (block d f t m i j)"
  by (simp_all add: coarsen_reduce_def)

lemma grid22_nan_block: "block grid22_nan 2 0 0 0 0 = [Some 1, None, Some 3, Some 5]"
proof -
  have u: "[0..<2] = [0, Suc 0]" by (simp add: upt_rec)
  show ?thesis by (simp add: block_def grid22_nan_def u)
qed

lemma grid22_block: "block grid22 2 0 0 0 0 = [Some 1, Some 2, Some 3, Some 5]"
proof -
  have u: "[0..<2] = [0, Suc 0]" by (simp add: upt_rec)
  show ?thesis by (simp add: block_def grid22_def u)
qed

lemma grid22_nan_window: "coarsen_window grid22_nan 2 = Inr 2"
  by (simp add: coarsen_window_def grid22_nan_def)

lemma nanmean_example: "nanmean [Some 1, None, Some 3, Some 5] = Some 3"
  by (simp add: nanmean_def Let_def map_filter_Cons_Some map_filter_Cons_None map_filter_Nil)

lemma grid22_nan_cnn_cell:
  "map_sum id (\<lambda>r. cell r 0 0 0 0) (downscale_data_cnn grid22_nan 2) = Inr (Some 3)"
  by (simp add: downscale_data_cnn_def grid22_nan_window ebind_Inr coarsen_reduce_sel
        grid22_nan_block nanmean_example)

text \<open>
  Claim C7 as stated fails for the version of train_cnn.py on a block with a NaN cell: the
  block 1, NaN, 3, 5 has no arithmetic mean (it is NaN), and the coarsened cell is 3, the
  mean of the three other cells.
\<close>

theorem downscale_cnn_skips_nan:
  "int (size_height grid22_nan) mod 2 = 0 \<and> int (size_ncells grid22_nan) mod 2 = 0 \<and>
   map_sum id (\<lambda>r. cell r 0 0 0 0) (downscale_data_cnn grid22_nan 2) = Inr (Some 3) \<and>
   arithmetic_mean (block grid22_nan 2 0 0 0 0) = None"
proof -
  have "int (size_height grid22_nan) mod 2 = 0" "int (size_ncells grid22_nan) mod 2 = 0"
    by (simp_all add: grid22_nan_def)
  moreover have "arithmetic_mean (block grid22_nan 2 0 0 0 0) = None"
    by (simp add: grid22_nan_block arithmetic_mean_def)
  ultimately show ?thesis using grid22_nan_cnn_cell by simp
qed

text \<open>
  Claim C7, amended, for the version of train_cnn.py. For a positive factor that divides
  the height and the ncells size, downscale_data returns a dataset whose height and ncells
  sizes are the original ones divided by the factor and whose time and member sizes are
  unchanged. Each output cell is the mean of the cells of its factor-by-factor block that
  are not NaN (NaN when there is none); when the block holds no NaN, this is the arithmetic
  mean of the block.
\<close>

theorem downscale_data_cnn_blocks:
  assumes "0 < factor"
    and "int (size_height d) mod factor = 0" and "int (size_ncells d) mod factor = 0"
  shows "\<exists>r. downscale_data_cnn d factor = Inr r
     \<and> size_time r = size_time d \<and> size_member r = size_member d
     \<and> size_height r = size_height d div nat factor
     \<and> size_ncells r = size_ncells d div nat factor
     \<and> (\<forall>t m i j. cell r t m i j = nanmean (block d (nat factor) t m i j))
     \<and> (\<forall>t m i j. None \<notin> set (block d (nat factor) t m i j) \<longrightarrow>
           cell r t m i j = arithmetic_mean (block d (nat factor) t m i j))"
proof -
  let ?f = "nat factor"
  let ?r = "coarsen_reduce nanmean d ?f"
  have w: "coarsen_window d factor = Inr ?f" using assms by (rule coarsen_window_ok)
  have a: "downscale_data_cnn d factor = Inr ?r"
    by (simp only: downscale_data_cnn_def w ebind_Inr)
  have s: "size_time ?r = size_time d" "size_member ?r = size_member d"
    "size_height ?r = size_height d div ?f" "size_ncells ?r = size_ncells d div ?f"
    by (simp_all only: coarsen_reduce_sel)
  have c: "\<forall>t m i j. cell ?r t m i j = nanmean (block d ?f t m i j)"
    by (simp only: coarsen_reduce_sel simp_thms)
  have e: "\<forall>t m i j. None \<notin> set (block d ?f t m i j) \<longrightarrow>
      cell ?r t m i j = arithmetic_mean (block d ?f t m i j)"
    by (simp add: coarsen_reduce_sel nanmean_arithmetic)
  show ?thesis
    by (rule exI [of _ ?r]) (intro conjI a s c e)
qed

theorem downscale_data_cnn_blocks_witness:
  "(0::int) < 2 \<and> int (size_height grid22) mod 2 = 0 \<and> int (size_ncells grid22) mod 2 = 0 \<and>
   (\<exists>r. downscale_data_cnn grid22 2 = Inr r
      \<and> size_height r = 1 \<and> size_ncells r = 1 \<and> cell r 0 0 0 0 = Some (11 / 4))"
proof -
  have h: "(0::int) < 2" "int (size_height grid22) mod 2 = 0" "int (size_ncells grid22) mod 2 = 0"
    by (simp_all add: grid22_def)
  have s: "size_height grid22 div nat 2 = 1" "size_ncells grid22 div nat 2 = 1"
    by (simp_all add: grid22_def)
  have n2: "nat 2 = 2" by simp
  have m: "arithmetic_mean (block grid22 2 0 0 0 0) = Some (11 / 4)"
    by (simp add: grid22_block arithmetic_mean_def)
  have nn: "None \<notin> set (block grid22 2 0 0 0 0)"
    by (simp add: grid22_block)
  obtain r where r: "downscale_data_cnn grid22 2 = Inr r"
    "size_height r = size_height grid22 div nat 2" "size_ncells r = size_ncells grid22 div nat 2"
    "\<forall>t m i j. None \<notin> set (block grid22 (nat 2) t m i j) \<longrightarrow>
           cell r t m i j = arithmetic_mean (block grid22 (nat 2) t m i j)"
    using downscale_data_cnn_blocks [OF h] by blast
  have "cell r 0 0 0 0 = Some (11 / 4)" using r(4) nn m unfolding n2 by metis
  then show ?thesis using h r(1,2,3) s by auto
qed

lemma downscale_data_raises: "downscale_data d factor = Inl TypeError"
  by (simp add: downscale_data_def Dict_str_bool_def ebind_Inl)

lemma grid22_cnn_cell:
  "map_sum id (\<lambda>r. cell r 0 0 0 0) (downscale_data_cnn grid22 2) = Inr (Some (11 / 4))"
proof -
  have w: "coarsen_window grid22 2 = Inr 2"
    by (simp add: coarsen_window_def grid22_def)
  have "nanmean [Some 1, Some 2, Some 3, Some 5] = Some (11 / 4)"
    by (simp add: nanmean_def Let_def map_filter_Cons_Some map_filter_Nil)
  then show ?thesis
    by (simp add: downscale_data_cnn_def w ebind_Inr coarsen_reduce_sel grid22_block)
qed

text \<open>
  Claim C9 on the code: on the 2x2 grid 1, 2, 3, 5 with factor 2 the version of
  train_cnn.py returns the coarsened dataset with the cell 11/4, and the version of
  utils.py raises TypeError, as it does on every input.
\<close>

theorem downscale_versions_diverge:
  "map_sum id (\<lambda>r. cell r 0 0 0 0) (downscale_data_cnn grid22 2) = Inr (Some (11 / 4)) \<and>
   downscale_data grid22 2 = Inl TypeError"
  using grid22_cnn_cell downscale_data_raises [of grid22 2] by simp




lemma shuffled_arange:
  assumes "mset p = mset [0..<n]"
  shows "length p = n" and "distinct p" and "set p = {0..<n}"
proof -
  have "size (mset p) = size (mset [0..<n])" using assms by simp
  then show "length p = n" by simp
  have "distinct [0..<n]" by simp
  then show "distinct p" using assms by (metis distinct_count_atmost_1 count_mset_0_iff set_mset_mset)
  have "set_mset (mset p) = set_mset (mset [0..<n])" using assms by simp
  then show "set p = {0..<n}" by simp
qed

text \<open>
  Claim C6. For a dataset with \<open>n\<close> members, a shuffle that permutes the member indices
  and a split \<open>s\<close> with \<open>0 \<le> s \<le> n\<close>: train_indices and test_indices are disjoint,
  together they are a permutation of \<open>0, ..., n - 1\<close>, they have \<open>s\<close> and \<open>n - s\<close>
  elements, and at every valid time index \<open>__getitem__\<close> returns the fields of the
  train members paired with the fields of the test members.
\<close>

theorem MyDataset_init_partition:
  assumes "mset (shuffle [0..<size_member d]) = mset [0..<size_member d]"
    and "0 \<le> s" and "s \<le> int (size_member d)"
  shows "set (train_indices (MyDataset_init shuffle d s))
           \<inter> set (test_indices (MyDataset_init shuffle d s)) = {}
       \<and> mset (train_indices (MyDataset_init shuffle d s) @ test_indices (MyDataset_init shuffle d s))
           = mset [0..<size_member d]
       \<and> length (train_indices (MyDataset_init shuffle d s)) = nat s
       \<and> length (test_indices (MyDataset_init shuffle d s)) = size_member d - nat s
       \<and> (\<forall>idx. 0 \<le> idx \<and> idx < int (size_time d) \<longrightarrow>
            MyDataset_getitem (MyDataset_init shuffle d s) idx =
              Inr (map (\<lambda>m. cell d (nat idx) m) (train_indices (MyDataset_init shuffle d s)),
                   map (\<lambda>m. cell d (nat idx) m) (test_indices (MyDataset_init shuffle d s))))"
proof -
  define n where "n = size_member d"
  define p where "p = shuffle [0..<n]"
  define k where "k = nat s"
  have mp: "mset p = mset [0..<n]" using assms(1) unfolding p_def n_def .
  have lp: "length p = n" and dp: "distinct p" and sp: "set p = {0..<n}"
    using shuffled_arange [OF mp] by blast+
  have kn: "k \<le> n" using assms(2,3) unfolding k_def n_def by linarith
  have si: "slice_index (length p) s = k"
    using assms(2) kn by (simp add: slice_index_def lp k_def)
  have tr: "train_indices (MyDataset_init shuffle d s) = take k p"
    by (simp add: MyDataset_init_def Let_def p_def [symmetric] n_def [symmetric] si)
  have te: "test_indices (MyDataset_init shuffle d s) = drop k p"
    by (simp add: MyDataset_init_def Let_def p_def [symmetric] n_def [symmetric] si)
  have da: "data (MyDataset_init shuffle d s) = d"
    by (simp add: MyDataset_init_def Let_def)
  have c1: "set (take k p) \<inter> set (drop k p) = {}"
    using dp by (simp add: set_take_disj_set_drop_if_distinct)
  have c2: "mset (take k p @ drop k p) = mset [0..<n]"
    using mp by simp
  have c3: "length (take k p) = k" using kn lp by simp
  have c4: "length (drop k p) = n - k" using lp by simp
  have in_range: "\<not> (\<exists>m \<in> set xs. size_member d \<le> m)" if "set xs \<subseteq> set p" for xs
    using that sp unfolding n_def by fastforce
  have c5: "MyDataset_getitem (MyDataset_init shuffle d s) idx =
      Inr (map (\<lambda>m. cell d (nat idx) m) (take k p), map (\<lambda>m. cell d (nat idx) m) (drop k p))"
    if "0 \<le> idx \<and> idx < int (size_time d)" for idx
  proof -
    have a: "isel_members d (take k p) idx = Inr (map (\<lambda>m. cell d (nat idx) m) (take k p))"
      using that in_range [of "take k p"]
      by (simp add: isel_members_def Let_def set_take_subset)
    have b: "isel_members d (drop k p) idx = Inr (map (\<lambda>m. cell d (nat idx) m) (drop k p))"
      using that in_range [of "drop k p"]
      by (simp add: isel_members_def Let_def set_drop_subset)
    show ?thesis by (simp only: MyDataset_getitem_def da tr te a b ebind_Inr)
  qed
  show ?thesis
    unfolding tr te using c1 c2 c3 c4 c5 unfolding n_def k_def by blast
qed

theorem MyDataset_init_partition_witness:
  "mset (rev [0..<size_member members4]) = mset [0..<size_member members4] \<and>
   (0::int) \<le> 1 \<and> 1 \<le> int (size_member members4) \<and>
   train_indices (MyDataset_init rev members4 1) = [3] \<and>
   test_indices (MyDataset_init rev members4 1) = [2, 1, 0] \<and>
   set (train_indices (MyDataset_init rev members4 1))
     \<inter> set (test_indices (MyDataset_init rev members4 1)) = {}"
proof -
  have h: "mset (rev [0..<size_member members4]) = mset [0..<size_member members4]"
    "(0::int) \<le> 1" "1 \<le> int (size_member members4)"
    by (simp_all add: members4_def)
  have u: "[0..<4] = [0, 1, 2, 3]" by (simp add: upt_rec)
  have tr: "train_indices (MyDataset_init rev members4 1) = [3]"
    by (simp add: MyDataset_init_def Let_def members4_def u slice_index_def)
  have te: "test_indices (MyDataset_init rev members4 1) = [2, 1, 0]"
    by (simp add: MyDataset_init_def Let_def members4_def u slice_index_def)
  from MyDataset_init_partition [of rev members4 1, OF h]
  have "set (train_indices (MyDataset_init rev members4 1))
     \<inter> set (test_indices (MyDataset_init rev members4 1)) = {}" by blast
  then show ?thesis using h tr te by blast
qed

section \<open>Properties of get_runs and of the loss functions\<close>

lemma sum_list_upt: "(\<Sum>i \<leftarrow> [0..<n]. f i) = (\<Sum>i<n. (f i :: real))"
  by (induction n) simp_all

lemma sum4_cong:
  fixes F G :: "nat \<Rightarrow> nat \<Rightarrow> nat \<Rightarrow> nat \<Rightarrow> real"
  assumes "\<And>n c i j. n < N \<Longrightarrow> c < C \<Longrightarrow> i < H \<Longrightarrow> j < W \<Longrightarrow> F n c i j = G n c i j"
  shows "(\<Sum>n<N. \<Sum>c<C. \<Sum>i<H. \<Sum>j<W. F n c i j) = (\<Sum>n<N. \<Sum>c<C. \<Sum>i<H. \<Sum>j<W. G n c i j)"
  by (intro sum.cong refl) (simp add: assms)

lemma torch_sum_eq:
  "torch_sum x = (\<Sum>n<dimN x. \<Sum>c<dimC x. \<Sum>i<dimH x. \<Sum>j<dimW x. elem x n c i j)"
  by (simp only: torch_sum_def sum_list_upt)

lemma bidx_lt: "i < m \<Longrightarrow> bidx m i = i"
  by (simp add: bidx_def)

lemma bdim_same: "bdim m m = m"
  by (simp add: bdim_def)

lemma broadcast2_same_shape:
  assumes "shape b = shape a"
  obtains r where "broadcast2 f a b = Inr r" and "shape r = shape a"
    and "\<And>n c i j. n < dimN a \<Longrightarrow> c < dimC a \<Longrightarrow> i < dimH a \<Longrightarrow> j < dimW a \<Longrightarrow>
           elem r n c i j = f (elem a n c i j) (elem b n c i j)"
proof -
  have d: "dimN b = dimN a" "dimC b = dimC a" "dimH b = dimH a" "dimW b = dimW a"
    using assms by (simp_all add: shape_def)
  let ?r = "\<lparr>dimN = dimN a, dimC = dimC a, dimH = dimH a, dimW = dimW a,
      elem = \<lambda>n c i j.
        f (elem a (bidx (dimN a) n) (bidx (dimC a) c) (bidx (dimH a) i) (bidx (dimW a) j))
          (elem b (bidx (dimN a) n) (bidx (dimC a) c) (bidx (dimH a) i) (bidx (dimW a) j))\<rparr>"
  have 1: "broadcast2 f a b = Inr ?r"
    by (simp add: broadcast2_def broadcastable_def d bdim_same)
  have 2: "shape ?r = shape a" by (simp add: shape_def)
  have 3: "elem ?r n c i j = f (elem a n c i j) (elem b n c i j)"
    if "n < dimN a" "c < dimC a" "i < dimH a" "j < dimW a" for n c i j
    using that by (simp add: bidx_lt)
  show ?thesis using 1 2 3 by (rule that)
qed

lemma get_runs_always_raises: "get_runs store experiment_name = Inl ValueError"
  by (simp add: get_runs_def get_runs_with_def search_runs_def py_not_def ebind_def Let_def)

lemma get_runs_with_list:
  "get_runs_with ListOfRuns store name =
     (if concat (map (runs_of store) (searched_names store name)) = [] then Inl ValueError
      else Inr (RunList (concat (map (runs_of store) (searched_names store name)))))"
  by (simp add: get_runs_with_def search_runs_def py_not_def ebind_def Let_def)

lemma search_runs_tracking_w: "search_runs tracking_w ''W'' Pandas = DataFrame [''run1'']"
  by (simp add: search_runs_def searched_names_def tracking_w_def)

text \<open>
  Claim C4 on the code: for the experiment W, whose search returns one run, get_runs raises
  ValueError instead of returning the search result. The search returns a DataFrame, whose
  truth value raises, so \<open>get_runs\<close> raises for every experiment name (lemma
  \<open>get_runs_always_raises\<close>); on a list of runs the same body raises exactly when the search
  returns no run (lemma \<open>get_runs_with_list\<close>).
\<close>

theorem get_runs_raises_with_runs:
  "search_runs tracking_w ''W'' Pandas = DataFrame [''run1''] \<and>
   get_runs tracking_w ''W'' = Inl ValueError"
  using search_runs_tracking_w get_runs_always_raises [of tracking_w "''W''"] by simp

lemma torch_var_dim1_mean:
  assumes "2 \<le> dimC x" and "0 < dimN x" and "0 < dimH x" and "0 < dimW x"
  shows "Option.bind (torch_var_dim1 x) torch_mean = Some (mean_member_variance x)"
proof -
  define v where "v = \<lparr>dimN = dimN x, dimC = 1, dimH = dimH x, dimW = dimW x,
                 elem = \<lambda>n c i j.
                   (let xs = map (\<lambda>e. elem x n e i j) [0..<dimC x];
                        mu = sum_list xs / real (dimC x)
                    in (\<Sum>v \<leftarrow> xs. (v - mu)\<^sup>2) / real (dimC x - 1))\<rparr>"
  have tv: "torch_var_dim1 x = Some v"
    using assms(1) by (simp add: torch_var_dim1_def v_def)
  have d: "dimN v = dimN x" "dimC v = 1" "dimH v = dimH x" "dimW v = dimW x"
    by (simp_all add: v_def)
  have e: "elem v n c i j = member_variance x n i j" for n c i j
    by (simp add: v_def member_variance_def Let_def sum_list_upt comp_def)
  have ne: "numel v = dimN x * dimH x * dimW x"
    by (simp add: numel_def d)
  have pos: "dimN x * dimH x * dimW x \<noteq> 0" using assms(2,3,4) by simp
  have "torch_sum v =
      (\<Sum>n<dimN x. \<Sum>c<(1::nat). \<Sum>i<dimH x. \<Sum>j<dimW x. member_variance x n i j)"
    by (simp only: torch_sum_eq d e)
  also have "\<dots> = (\<Sum>n<dimN x. \<Sum>i<dimH x. \<Sum>j<dimW x. member_variance x n i j)"
    by simp
  finally have s: "torch_sum v = (\<Sum>n<dimN x. \<Sum>i<dimH x. \<Sum>j<dimW x. member_variance x n i j)" .
  have "torch_mean v = Some (mean_member_variance x)"
    using pos by (simp add: torch_mean_def ne s mean_member_variance_def)
  then show ?thesis by (simp add: tv)
qed

lemma l1_mean:
  assumes "broadcast2 (\<lambda>a b. a - b) outputs target = Inr diff"
    and "shape diff = shape outputs"
    and "\<And>n c i j. n < dimN outputs \<Longrightarrow> c < dimC outputs \<Longrightarrow> i < dimH outputs
           \<Longrightarrow> j < dimW outputs \<Longrightarrow> elem diff n c i j = elem outputs n c i j - elem target n c i j"
    and "numel outputs \<noteq> 0"
  shows "torch_mean (torch_abs diff) = Some (mean_abs_error outputs target)"
proof -
  have d: "dimN diff = dimN outputs" "dimC diff = dimC outputs" "dimH diff = dimH outputs"
    "dimW diff = dimW outputs"
    using assms(2) by (simp_all add: shape_def)
  have da: "dimN (torch_abs diff) = dimN outputs" "dimC (torch_abs diff) = dimC outputs"
    "dimH (torch_abs diff) = dimH outputs" "dimW (torch_abs diff) = dimW outputs"
    "elem (torch_abs diff) n c i j = \<bar>elem diff n c i j\<bar>" for n c i j
    by (simp_all add: torch_abs_def d)
  have ne: "numel (torch_abs diff) = numel outputs"
    by (simp add: numel_def da)
  have "torch_sum (torch_abs diff) =
      (\<Sum>n<dimN outputs. \<Sum>c<dimC outputs. \<Sum>i<dimH outputs. \<Sum>j<dimW outputs. \<bar>elem diff n c i j\<bar>)"
    by (simp only: torch_sum_eq da)
  also have "\<dots> = (\<Sum>n<dimN outputs. \<Sum>c<dimC outputs. \<Sum>i<dimH outputs. \<Sum>j<dimW outputs.
      \<bar>elem outputs n c i j - elem target n c i j\<bar>)"
    by (rule sum4_cong) (simp add: assms(3))
  finally have s: "torch_sum (torch_abs diff) =
      (\<Sum>n<dimN outputs. \<Sum>c<dimC outputs. \<Sum>i<dimH outputs. \<Sum>j<dimW outputs.
        \<bar>elem outputs n c i j - elem target n c i j\<bar>)" .
  show ?thesis
    unfolding torch_mean_def ne s mean_abs_error_def using assms(4)
    by (simp add: numel_def)
qed

lemma sum_lt_1: "(\<Sum>i<(1::nat). f i) = (f 0 :: real)"
  by simp

lemma sum_lt_2: "(\<Sum>i<(2::nat). f i) = (f 0 + f 1 :: real)"
  by (simp add: numeral_2_eq_2)

lemma l1_mean_empty:
  assumes "shape diff = shape outputs" and "numel outputs = 0"
  shows "torch_mean (torch_abs diff) = None"
proof -
  have "numel (torch_abs diff) = numel outputs"
    using assms(1) by (simp add: numel_def torch_abs_def shape_def)
  then show ?thesis using assms(2) by (simp add: torch_mean_def)
qed

text \<open>
  Claim C8. For outputs with the ensemble members along axis 1 and a target of the same
  shape, forward returns the mean absolute error minus \<open>alpha\<close> times the mean variance
  across the members; the value is NaN when a mean is taken over no entries or there are
  fewer than two members.
\<close>

theorem EnsembleVarianceRegularizationLoss_value:
  assumes "shape target = shape outputs"
  shows "EnsembleVarianceRegularizationLoss_forward alpha outputs target =
     Inr (if dimN outputs = 0 \<or> dimC outputs \<le> 1 \<or> dimH outputs = 0 \<or> dimW outputs = 0
          then None
          else Some (mean_abs_error outputs target - alpha * mean_member_variance outputs))"
proof -
  obtain diff where diff: "broadcast2 (\<lambda>a b. a - b) outputs target = Inr diff"
    "shape diff = shape outputs"
    "\<And>n c i j. n < dimN outputs \<Longrightarrow> c < dimC outputs \<Longrightarrow> i < dimH outputs
       \<Longrightarrow> j < dimW outputs \<Longrightarrow> elem diff n c i j = elem outputs n c i j - elem target n c i j"
    using broadcast2_same_shape [OF assms] by blast
  define l1 where "l1 = torch_mean (torch_abs diff)"
  define reg where
    "reg = map_option (\<lambda>m. - alpha * m) (Option.bind (torch_var_dim1 outputs) torch_mean)"
  have u: "EnsembleVarianceRegularizationLoss_forward alpha outputs target =
      Inr (case (l1, reg) of (Some a, Some b) \<Rightarrow> Some (a + b) | _ \<Rightarrow> None)"
    by (simp only: EnsembleVarianceRegularizationLoss_forward_def diff(1) ebind_def sum.case
          Let_def l1_def reg_def)
  show ?thesis
  proof (cases "dimC outputs \<le> 1")
    case True
    then have "reg = None" by (simp add: reg_def torch_var_dim1_def)
    then show ?thesis unfolding u using True by (simp split: option.split)
  next
    case c2: False
    show ?thesis
    proof (cases "dimN outputs = 0 \<or> dimH outputs = 0 \<or> dimW outputs = 0")
      case True
      then have "numel outputs = 0" by (auto simp add: numel_def)
      then have "l1 = None" unfolding l1_def using diff(2) l1_mean_empty by blast
      then show ?thesis unfolding u using True by auto
    next
      case False
      then have pos: "0 < dimN outputs" "0 < dimH outputs" "0 < dimW outputs" by simp_all
      have c: "2 \<le> dimC outputs" using c2 by simp
      have ne: "numel outputs \<noteq> 0" using pos c by (simp add: numel_def)
      have a: "l1 = Some (mean_abs_error outputs target)"
        unfolding l1_def using diff(1,2,3) ne by (rule l1_mean)
      have b: "reg = Some (- alpha * mean_member_variance outputs)"
        unfolding reg_def using torch_var_dim1_mean [OF c pos] by simp
      show ?thesis unfolding u a b using c2 False by simp
    qed
  qed
qed

lemma members13_values:
  "mean_abs_error members13 (zeros_like members13) = 2"
  "mean_member_variance members13 = 2"
  by (simp_all add: mean_abs_error_def mean_member_variance_def member_variance_def
        members13_def zeros_like_def sum_lt_2 power2_eq_square)

theorem EnsembleVarianceRegularizationLoss_value_witness:
  "shape (zeros_like members13) = shape members13 \<and>
   EnsembleVarianceRegularizationLoss_forward (1 / 2) members13 (zeros_like members13)
     = Inr (Some 1)"
proof -
  have h: "shape (zeros_like members13) = shape members13"
    by (simp add: shape_def zeros_like_def)
  have d: "dimN members13 = 1" "dimC members13 = 2" "dimH members13 = 1" "dimW members13 = 1"
    by (simp_all add: members13_def)
  show ?thesis
    using h EnsembleVarianceRegularizationLoss_value [OF h, of "1 / 2"]
    by (simp add: d members13_values)
qed

lemma sum4_pos:
  fixes F :: "nat \<Rightarrow> nat \<Rightarrow> nat \<Rightarrow> nat \<Rightarrow> real"
  assumes nonneg: "\<And>n c i j. n < N \<Longrightarrow> c < C \<Longrightarrow> i < H \<Longrightarrow> j < W \<Longrightarrow> 0 \<le> F n c i j"
    and "n0 < N" and "c0 < C" and "i0 < H" and "j0 < W" and "0 < F n0 c0 i0 j0"
  shows "0 < (\<Sum>n<N. \<Sum>c<C. \<Sum>i<H. \<Sum>j<W. F n c i j)"
proof -
  have 1: "0 < (\<Sum>j<W. F n0 c0 i0 j)"
  proof (rule sum_pos2 [of _ j0])
    show "finite {..<W}" by simp
    show "j0 \<in> {..<W}" using assms(5) by simp
    show "0 < F n0 c0 i0 j0" by (rule assms(6))
    show "0 \<le> F n0 c0 i0 j" if "j \<in> {..<W}" for j
      using that assms(2,3,4) by (simp add: nonneg)
  qed
  have 2: "0 < (\<Sum>i<H. \<Sum>j<W. F n0 c0 i j)"
  proof (rule sum_pos2 [of _ i0])
    show "finite {..<H}" by simp
    show "i0 \<in> {..<H}" using assms(4) by simp
    show "0 < (\<Sum>j<W. F n0 c0 i0 j)" by (rule 1)
    show "0 \<le> (\<Sum>j<W. F n0 c0 i j)" if "i \<in> {..<H}" for i
      using that assms(2,3) by (intro sum_nonneg) (simp add: nonneg)
  qed
  have 3: "0 < (\<Sum>c<C. \<Sum>i<H. \<Sum>j<W. F n0 c i j)"
  proof (rule sum_pos2 [of _ c0])
    show "finite {..<C}" by simp
    show "c0 \<in> {..<C}" using assms(3) by simp
    show "0 < (\<Sum>i<H. \<Sum>j<W. F n0 c0 i j)" by (rule 2)
    show "0 \<le> (\<Sum>i<H. \<Sum>j<W. F n0 c i j)" if "c \<in> {..<C}" for c
      using that assms(2) by (intro sum_nonneg) (simp add: nonneg)
  qed
  show ?thesis
  proof (rule sum_pos2 [of _ n0])
    show "finite {..<N}" by simp
    show "n0 \<in> {..<N}" using assms(2) by simp
    show "0 < (\<Sum>c<C. \<Sum>i<H. \<Sum>j<W. F n0 c i j)" by (rule 3)
    show "0 \<le> (\<Sum>c<C. \<Sum>i<H. \<Sum>j<W. F n c i j)" if "n \<in> {..<N}" for n
      using that by (intro sum_nonneg) (simp add: nonneg)
  qed
qed

lemma mask_pm_sum: "torch_sum mask_pm = 0"
  by (simp add: torch_sum_eq mask_pm_def sum_lt_2)

lemma l1_none_row13:
  obtains loss where "l1_none row13 (zeros_like row13) = Inr loss"
    and "shape loss = shape row13"
    and "elem loss 0 0 0 0 = 1" and "elem loss 0 0 0 1 = 3"
proof -
  have h: "shape (zeros_like row13) = shape row13"
    by (simp add: shape_def zeros_like_def)
  obtain diff where diff: "broadcast2 (\<lambda>a b. a - b) row13 (zeros_like row13) = Inr diff"
    "shape diff = shape row13"
    "\<And>n c i j. n < dimN row13 \<Longrightarrow> c < dimC row13 \<Longrightarrow> i < dimH row13
       \<Longrightarrow> j < dimW row13 \<Longrightarrow>
       elem diff n c i j = elem row13 n c i j - elem (zeros_like row13) n c i j"
    using broadcast2_same_shape [OF h] by blast
  have 1: "l1_none row13 (zeros_like row13) = Inr (torch_abs diff)"
    by (simp add: l1_none_def diff(1) ebind_Inr)
  have 2: "shape (torch_abs diff) = shape row13"
    using diff(2) by (simp add: shape_def torch_abs_def)
  have "elem diff 0 0 0 0 = 1" "elem diff 0 0 0 1 = 3"
    by (simp_all add: diff(3) row13_def zeros_like_def)
  then have 3: "elem (torch_abs diff) 0 0 0 0 = 1" "elem (torch_abs diff) 0 0 0 1 = 3"
    by (simp_all add: torch_abs_def)
  show ?thesis using 1 2 3 by (rule that)
qed

text \<open>
  Claim C10 as stated fails for a mask with entries of both signs: the mask 1, -1 has a
  nonzero entry and the sum 0, so forward divides by zero and the result is not a number.
\<close>

theorem MaskedLoss_zero_divisor:
  "elem mask_pm 0 0 0 0 \<noteq> 0 \<and> shape mask_pm = shape row13 \<and> torch_sum mask_pm = 0 \<and>
   MaskedLoss_forward l1_none row13 (zeros_like row13) mask_pm = Inr None"
proof -
  obtain loss where loss: "l1_none row13 (zeros_like row13) = Inr loss"
    "shape loss = shape row13"
    by (rule l1_none_row13)
  have sm: "shape mask_pm = shape row13"
    by (simp add: shape_def mask_pm_def row13_def)
  then have "shape mask_pm = shape loss" using loss(2) by simp
  then obtain m where m: "broadcast2 (\<lambda>a b. a * b) loss mask_pm = Inr m"
    by (rule broadcast2_same_shape)
  have "MaskedLoss_forward l1_none row13 (zeros_like row13) mask_pm = Inr None"
    by (simp add: MaskedLoss_forward_def loss(1) m ebind_Inr torch_div_def mask_pm_sum)
  moreover have "elem mask_pm 0 0 0 0 \<noteq> 0" by (simp add: mask_pm_def)
  ultimately show ?thesis using sm mask_pm_sum by simp
qed

text \<open>
  Claim C10, amended. For a mask of the shape of the loss whose entries are not negative
  and not all zero, the divisor \<open>torch.sum(mask)\<close> is positive and forward returns the sum
  of the entry-by-entry products of loss and mask divided by the sum of the mask.
\<close>

theorem MaskedLoss_value:
  assumes "loss_fn outputs target = Inr loss" and "shape loss = shape msk"
    and "\<forall>n<dimN msk. \<forall>c<dimC msk. \<forall>i<dimH msk. \<forall>j<dimW msk. 0 \<le> elem msk n c i j"
    and "\<exists>n<dimN msk. \<exists>c<dimC msk. \<exists>i<dimH msk. \<exists>j<dimW msk. elem msk n c i j \<noteq> 0"
  shows "0 < torch_sum msk
       \<and> MaskedLoss_forward loss_fn outputs target msk =
           Inr (Some ((\<Sum>n<dimN msk. \<Sum>c<dimC msk. \<Sum>i<dimH msk. \<Sum>j<dimW msk.
                         elem loss n c i j * elem msk n c i j) / torch_sum msk))"
proof -
  have d: "dimN loss = dimN msk" "dimC loss = dimC msk" "dimH loss = dimH msk"
    "dimW loss = dimW msk"
    using assms(2) by (simp_all add: shape_def)
  obtain n0 c0 i0 j0 where nz: "n0 < dimN msk" "c0 < dimC msk" "i0 < dimH msk" "j0 < dimW msk"
    "elem msk n0 c0 i0 j0 \<noteq> 0"
    using assms(4) by blast
  have nn: "0 \<le> elem msk n c i j"
    if "n < dimN msk" "c < dimC msk" "i < dimH msk" "j < dimW msk" for n c i j
    using assms(3) that by blast
  have p: "0 < elem msk n0 c0 i0 j0" using nn [OF nz(1,2,3,4)] nz(5) by simp
  have "0 < (\<Sum>n<dimN msk. \<Sum>c<dimC msk. \<Sum>i<dimH msk. \<Sum>j<dimW msk. elem msk n c i j)"
    by (rule sum4_pos [where F = "elem msk", OF nn nz(1,2,3,4) p])
  then have pos: "0 < torch_sum msk" by (simp only: torch_sum_eq)
  obtain m where m: "broadcast2 (\<lambda>a b. a * b) loss msk = Inr m" "shape m = shape loss"
    "\<And>n c i j. n < dimN loss \<Longrightarrow> c < dimC loss \<Longrightarrow> i < dimH loss \<Longrightarrow> j < dimW loss \<Longrightarrow>
       elem m n c i j = elem loss n c i j * elem msk n c i j"
    using broadcast2_same_shape [OF assms(2) [symmetric]] by blast
  have dm: "dimN m = dimN msk" "dimC m = dimC msk" "dimH m = dimH msk" "dimW m = dimW msk"
    using m(2) d by (simp_all add: shape_def)
  have "torch_sum m = (\<Sum>n<dimN msk. \<Sum>c<dimC msk. \<Sum>i<dimH msk. \<Sum>j<dimW msk. elem m n c i j)"
    by (simp only: torch_sum_eq dm)
  also have "\<dots> = (\<Sum>n<dimN msk. \<Sum>c<dimC msk. \<Sum>i<dimH msk. \<Sum>j<dimW msk.
      elem loss n c i j * elem msk n c i j)"
    by (rule sum4_cong) (simp add: m(3) d)
  finally have s: "torch_sum m = (\<Sum>n<dimN msk. \<Sum>c<dimC msk. \<Sum>i<dimH msk. \<Sum>j<dimW msk.
      elem loss n c i j * elem msk n c i j)" .
  have "MaskedLoss_forward loss_fn outputs target msk =
      Inr (torch_div (torch_sum m) (torch_sum msk))"
    by (simp only: MaskedLoss_forward_def assms(1) m(1) ebind_Inr)
  also have "\<dots> = Inr (Some (torch_sum m / torch_sum msk))"
    using pos by (simp add: torch_div_def)
  finally show ?thesis using pos unfolding s by simp
qed

theorem MaskedLoss_value_witness:
  "\<exists>loss. l1_none row13 (zeros_like row13) = Inr loss \<and> shape loss = shape mask10 \<and>
     (\<forall>n<dimN mask10. \<forall>c<dimC mask10. \<forall>i<dimH mask10. \<forall>j<dimW mask10. 0 \<le> elem mask10 n c i j) \<and>
     (\<exists>n<dimN mask10. \<exists>c<dimC mask10. \<exists>i<dimH mask10. \<exists>j<dimW mask10. elem mask10 n c i j \<noteq> 0) \<and>
     MaskedLoss_forward l1_none row13 (zeros_like row13) mask10 = Inr (Some 1)"
proof -
  obtain loss where loss: "l1_none row13 (zeros_like row13) = Inr loss"
    "shape loss = shape row13" "elem loss 0 0 0 0 = 1" "elem loss 0 0 0 1 = 3"
    by (rule l1_none_row13)
  have sh: "shape loss = shape mask10"
    using loss(2) by (simp add: shape_def mask10_def row13_def)
  have d: "dimN mask10 = 1" "dimC mask10 = 1" "dimH mask10 = 1" "dimW mask10 = 2"
    by (simp_all add: mask10_def)
  have nn: "\<forall>n<dimN mask10. \<forall>c<dimC mask10. \<forall>i<dimH mask10. \<forall>j<dimW mask10.
      0 \<le> elem mask10 n c i j"
    by (simp add: mask10_def)
  have "elem mask10 0 0 0 0 \<noteq> 0" by (simp add: mask10_def)
  have nz: "\<exists>n<dimN mask10. \<exists>c<dimC mask10. \<exists>i<dimH mask10. \<exists>j<dimW mask10.
      elem mask10 n c i j \<noteq> 0"
  proof -
    have "0 < dimN mask10" "0 < dimC mask10" "0 < dimH mask10" "0 < dimW mask10"
      by (simp_all add: d)
    then show ?thesis using \<open>elem mask10 0 0 0 0 \<noteq> 0\<close> by blast
  qed
  have ms: "torch_sum mask10 = 1"
    by (simp add: torch_sum_eq mask10_def sum_lt_2)
  have e: "elem mask10 0 0 0 0 = 1" "elem mask10 0 0 0 (Suc 0) = 0"
    by (simp_all add: mask10_def)
  have "MaskedLoss_forward l1_none row13 (zeros_like row13) mask10 = Inr (Some 1)"
    using MaskedLoss_value [of l1_none row13 "zeros_like row13" loss mask10, OF loss(1) sh nn nz]
    by (simp add: d sum_lt_2 ms e loss(3,4))
  then show ?thesis using loss(1) sh nn nz by blast
qed

end
